theory Spec2Isabelle
  imports Complex_Main
begin

section \<open>Python values, dictionaries and strings\<close>

text \<open>
  The stage results and the statistics are Python dicts with string keys and values of
  several types, and \<open>validate_output\<close> takes any Python value. A dict is an
  association list in insertion order; where a key is bound twice the first binding is the
  one in force. Floats are modelled as exact reals: rounding is not part of the model.
  A string is a list of characters, each a code point below 256 (the Latin-1 range of
  Unicode); text with a character beyond that range is outside the model.
\<close>

datatype pyval =
    PNone
  | PBool bool
  | PInt int
  | PFloat real
  | PStr string
  | PList "pyval list"
  | PDict "(string \<times> pyval) list"

type_synonym dict = "(string \<times> pyval) list"

datatype error =
    CompletionError string
  | TypeError
  | KeyError string

text \<open>\<open>k in d\<close>, \<open>d.get(k, default)\<close> and \<open>d[k]\<close>.\<close>

definition contains :: "(string \<times> 'v) list \<Rightarrow> string \<Rightarrow> bool" where
  "contains d k = (case map_of d k of None \<Rightarrow> False | Some v \<Rightarrow> True)"

definition dict_get :: "(string \<times> 'v) list \<Rightarrow> string \<Rightarrow> 'v \<Rightarrow> 'v" where
  "dict_get d k dflt = (case map_of d k of None \<Rightarrow> dflt | Some v \<Rightarrow> v)"

definition subscript :: "(string \<times> 'v) list \<Rightarrow> string \<Rightarrow> error + 'v" where
  "subscript d k = (case map_of d k of None \<Rightarrow> Inl (KeyError k) | Some v \<Rightarrow> Inr v)"

text \<open>\<open>str.lower()\<close> on code points below 256: the 26 capital letters A to Z and
  the 30 capital letters of the Latin-1 range (U+00C0 to U+00DE without the multiplication
  sign U+00D7) are mapped to their small letters, 32 code points higher; every other
  character is kept.\<close>

definition ascii_uppercase :: string where
  "ascii_uppercase = ''ABCDEFGHIJKLMNOPQRSTUVWXYZ''"

definition ascii_lowercase :: string where
  "ascii_lowercase = ''abcdefghijklmnopqrstuvwxyz''"

definition latin1_uppercase :: string where
  "latin1_uppercase =
     [CHR 0xC0, CHR 0xC1, CHR 0xC2, CHR 0xC3, CHR 0xC4, CHR 0xC5, CHR 0xC6, CHR 0xC7,
      CHR 0xC8, CHR 0xC9, CHR 0xCA, CHR 0xCB, CHR 0xCC, CHR 0xCD, CHR 0xCE, CHR 0xCF,
      CHR 0xD0, CHR 0xD1, CHR 0xD2, CHR 0xD3, CHR 0xD4, CHR 0xD5, CHR 0xD6, CHR 0xD8,
      CHR 0xD9, CHR 0xDA, CHR 0xDB, CHR 0xDC, CHR 0xDD, CHR 0xDE]"

definition latin1_lowercase :: string where
  "latin1_lowercase =
     [CHR 0xE0, CHR 0xE1, CHR 0xE2, CHR 0xE3, CHR 0xE4, CHR 0xE5, CHR 0xE6, CHR 0xE7,
      CHR 0xE8, CHR 0xE9, CHR 0xEA, CHR 0xEB, CHR 0xEC, CHR 0xED, CHR 0xEE, CHR 0xEF,
      CHR 0xF0, CHR 0xF1, CHR 0xF2, CHR 0xF3, CHR 0xF4, CHR 0xF5, CHR 0xF6, CHR 0xF8,
      CHR 0xF9, CHR 0xFA, CHR 0xFB, CHR 0xFC, CHR 0xFD, CHR 0xFE]"

definition lower_char :: "char \<Rightarrow> char" where
  "lower_char c =
     (case map_of (zip (ascii_uppercase @ latin1_uppercase) (ascii_lowercase @ latin1_lowercase)) c of
        None \<Rightarrow> c
      | Some l \<Rightarrow> l)"

definition lower :: "string \<Rightarrow> string" where
  "lower s = map lower_char s"

text \<open>\<open>str.split()\<close> without arguments: the text is cut at runs of whitespace and no
  empty token is produced. The whitespace characters are those of \<open>str.isspace\<close>
  below code point 256: tab to carriage return (9 to 13), the four separators 28 to 31,
  the space (32), next line (U+0085) and the no-break space (U+00A0).\<close>

definition is_space :: "char \<Rightarrow> bool" where
  "is_space c = (c \<in> set [CHR 0x09, CHR 0x0A, CHR 0x0B, CHR 0x0C, CHR 0x0D,
                          CHR 0x1C, CHR 0x1D, CHR 0x1E, CHR 0x1F, CHR 0x20,
                          CHR 0x85, CHR 0xA0])"

fun split_from :: "string \<Rightarrow> string \<Rightarrow> string list" where
  "split_from cur [] = (if cur = [] then [] else [cur])"
| "split_from cur (c # cs) =
     (if is_space c
      then (if cur = [] then split_from [] cs else cur # split_from [] cs)
      else split_from (cur @ [c]) cs)"

definition str_split :: "string \<Rightarrow> string list" where
  "str_split s = split_from [] s"

text \<open>The spec's reading of the word count: the number of whitespace-separated tokens,
  counted as the number of places where a token begins (a character that is not
  whitespace, at the start of the text or right after whitespace).\<close>

fun token_starts :: "bool \<Rightarrow> string \<Rightarrow> nat" where
  "token_starts after_space [] = 0"
| "token_starts after_space (c # cs) =
     (if \<not> is_space c \<and> after_space then 1 else 0) + token_starts (is_space c) cs"

definition whitespace_separated_tokens :: "string \<Rightarrow> nat" where
  "whitespace_separated_tokens s = token_starts True s"

text \<open>\<open>str(n)\<close> and \<open>int(x)\<close> (truncation towards zero) for the workflow
  identifier.\<close>

fun str_nat :: "nat \<Rightarrow> string" where
  "str_nat n =
     (if n < 10 then [''0123456789'' ! n]
      else str_nat (n div 10) @ [''0123456789'' ! (n mod 10)])"

declare str_nat.simps [simp del]

definition str_int :: "int \<Rightarrow> string" where
  "str_int i = (if i < 0 then ''-'' @ str_nat (nat (- i)) else str_nat (nat i))"

definition int_of_float :: "real \<Rightarrow> int" where
  "int_of_float x = (if 0 \<le> x then \<lfloor>x\<rfloor> else \<lceil>x\<rceil>)"

definition nl :: string where
  "nl = [CHR 0x0A]"

section \<open>The world outside the pipeline\<close>

text \<open>
  The collaborators are the wall clock (\<open>time.time()\<close>), the completion client
  (\<open>self.llm.invoke\<close>) and the telemetry sink (the logger and its spans). The clock and
  the client are oracles of the environment: the clock is read by the number of earlier
  readings, the client answers by the number of earlier calls and the prompt, with the
  generated text or with an error. The world records how often the clock was read, every
  prompt sent and every event emitted, and holds the four agents' own histories.
\<close>

text \<open>The events of the telemetry sink: a plain log line; the start of an agent (its
  name, the task and the argument of \<open>execute\<close>, which the source logs as
  \<open>str(args)\<close>); the end of an agent (its name, the type name of the result and the
  elapsed milliseconds); an agent's error; a metrics record; and the closing log line of
  a workflow with its identifier and total time.\<close>

datatype event =
    Info string
  | AgentStart string string pyval
  | AgentEnd string string real
  | AgentError string error string
  | Metrics string "(string \<times> real) list"
  | WorkflowCompleted string real

record env =
  now :: "nat \<Rightarrow> real"
  llm :: "nat \<Rightarrow> string \<Rightarrow> error + string"
  enable_metrics :: bool

record world =
  ticks :: nat
  prompts :: "string list"
  telemetry :: "event list"
  research_history :: "dict list"
  analysis_history :: "dict list"
  written_content :: "dict list"
  review_history :: "dict list"

definition time_time :: "env \<Rightarrow> world \<Rightarrow> real \<times> world" where
  "time_time e w = (now e (ticks w), w\<lparr>ticks := Suc (ticks w)\<rparr>)"

definition llm_invoke :: "env \<Rightarrow> string \<Rightarrow> world \<Rightarrow> (error + string) \<times> world" where
  "llm_invoke e prompt w = (llm e (length (prompts w)) prompt, w\<lparr>prompts := prompts w @ [prompt]\<rparr>)"

definition emit :: "event \<Rightarrow> world \<Rightarrow> world" where
  "emit ev w = w\<lparr>telemetry := telemetry w @ [ev]\<rparr>"

subsection \<open>logger.py\<close>

text \<open>Each logging call is one event. \<open>log_metrics\<close> is gated by the setting
  \<open>enable_metrics\<close>. A span (\<open>with logfire.span(...)\<close>) lets an exception pass.\<close>

definition log_agent_start :: "string \<Rightarrow> string \<Rightarrow> pyval \<Rightarrow> world \<Rightarrow> world" where
  "log_agent_start agent_name task arg w = emit (AgentStart agent_name task arg) w"

definition log_agent_end :: "string \<Rightarrow> dict \<Rightarrow> real \<Rightarrow> world \<Rightarrow> world" where
  "log_agent_end agent_name result execution_time w = emit (AgentEnd agent_name ''dict'' execution_time) w"

definition log_error :: "string \<Rightarrow> error \<Rightarrow> string \<Rightarrow> world \<Rightarrow> world" where
  "log_error agent_name err context w = emit (AgentError agent_name err context) w"

definition log_metrics :: "env \<Rightarrow> string \<Rightarrow> (string \<times> real) list \<Rightarrow> world \<Rightarrow> world" where
  "log_metrics e agent_name metrics w = (if enable_metrics e then emit (Metrics agent_name metrics) w else w)"

type_synonym agent = "pyval \<Rightarrow> world \<Rightarrow> (error + dict) \<times> world"

text \<open>The decorator: it reads the clock, logs the start, runs the function, and on
  success reads the clock again and logs the end; an exception of the function is logged
  and raised again as it is.\<close>

definition track_agent_performance :: "env \<Rightarrow> string \<Rightarrow> string \<Rightarrow> agent \<Rightarrow> agent" where
  "track_agent_performance e agent_name func_name func arg w0 =
     (let (start_time, w1) = time_time e w0;
          w2 = log_agent_start agent_name func_name arg w1;
          (outcome, w3) = func arg w2
      in case outcome of
           Inr result \<Rightarrow>
             (let (t, w4) = time_time e w3;
                  execution_time = (t - start_time) * 1000
              in (Inr result, log_agent_end agent_name result execution_time w4))
         | Inl err \<Rightarrow> (Inl err, log_error agent_name err func_name w3))"

section \<open>agents.py\<close>

text \<open>
  Each agent builds its prompt from the input, calls the completion client once, shapes
  the response into its result dict, appends the dict to its own history and returns it.
  When the client raises, nothing is appended and the exception leaves \<open>execute\<close>.
\<close>

definition research_prompt :: "string \<Rightarrow> string" where
  "research_prompt input_data =
     ''Research and provide comprehensive information about: '' @ input_data @ nl @
     ''        Include:'' @ nl @
     ''        - Key findings'' @ nl @
     ''        - Relevant data points'' @ nl @
     ''        - Sources and references''"

definition analysis_prompt :: "string \<Rightarrow> string" where
  "analysis_prompt input_data =
     ''Analyze the following information and provide:'' @ nl @
     ''        '' @ input_data @ nl @
     ''        '' @ nl @
     ''        Include:'' @ nl @
     ''        - Key insights'' @ nl @
     ''        - Pattern identification'' @ nl @
     ''        - Recommendations'' @ nl @
     ''        - Risk assessment''"

definition writing_prompt :: "string \<Rightarrow> string" where
  "writing_prompt input_data =
     ''Create a professional report based on:'' @ nl @
     ''        '' @ input_data @ nl @
     ''        '' @ nl @
     ''        Format:'' @ nl @
     ''        - Executive Summary'' @ nl @
     ''        - Detailed Findings'' @ nl @
     ''        - Conclusions'' @ nl @
     ''        - Next Steps''"

definition review_prompt :: "string \<Rightarrow> string" where
  "review_prompt input_data =
     ''Review the following content and provide quality assessment:'' @ nl @
     ''        '' @ input_data @ nl @
     ''        '' @ nl @
     ''        Evaluate:'' @ nl @
     ''        - Accuracy'' @ nl @
     ''        - Clarity'' @ nl @
     ''        - Completeness'' @ nl @
     ''        - Professionalism'' @ nl @
     ''        '' @ nl @
     ''        Provide improvement suggestions.''"

definition research_execute :: "env \<Rightarrow> string \<Rightarrow> world \<Rightarrow> (error + dict) \<times> world" where
  "research_execute e input_data w0 =
     (let w1 = emit (Info (''Starting research on: '' @ input_data)) w0;
          (response, w2) = llm_invoke e (research_prompt input_data) w1
      in case response of
           Inl err \<Rightarrow> (Inl err, w2)
         | Inr content \<Rightarrow>
             (let research_result =
                    [(''topic'', PStr input_data),
                     (''findings'', PStr content),
                     (''research_type'', PStr ''comprehensive'')]
              in (Inr research_result,
                  w2\<lparr>research_history := research_history w2 @ [research_result]\<rparr>)))"

definition analysis_execute :: "env \<Rightarrow> string \<Rightarrow> world \<Rightarrow> (error + dict) \<times> world" where
  "analysis_execute e input_data w0 =
     (let w1 = emit (Info (''Analyzing data: '' @ take 100 input_data @ ''...'')) w0;
          (response, w2) = llm_invoke e (analysis_prompt input_data) w1
      in case response of
           Inl err \<Rightarrow> (Inl err, w2)
         | Inr content \<Rightarrow>
             (let analysis_result =
                    [(''input_summary'', PStr (take 200 input_data)),
                     (''insights'', PStr content),
                     (''confidence_score'', PFloat 0.85)]
              in (Inr analysis_result,
                  w2\<lparr>analysis_history := analysis_history w2 @ [analysis_result]\<rparr>)))"

definition writer_execute :: "env \<Rightarrow> string \<Rightarrow> world \<Rightarrow> (error + dict) \<times> world" where
  "writer_execute e input_data w0 =
     (let w1 = emit (Info (''Creating report for: '' @ take 100 input_data @ ''...'')) w0;
          (response, w2) = llm_invoke e (writing_prompt input_data) w1
      in case response of
           Inl err \<Rightarrow> (Inl err, w2)
         | Inr content \<Rightarrow>
             (let report =
                    [(''report_type'', PStr ''professional''),
                     (''content'', PStr content),
                     (''word_count'', PInt (int (length (str_split content)))),
                     (''status'', PStr ''completed'')]
              in (Inr report, w2\<lparr>written_content := written_content w2 @ [report]\<rparr>)))"

definition review_execute :: "env \<Rightarrow> string \<Rightarrow> world \<Rightarrow> (error + dict) \<times> world" where
  "review_execute e input_data w0 =
     (let w1 = emit (Info ''Reviewing content quality'') w0;
          (response, w2) = llm_invoke e (review_prompt input_data) w1
      in case response of
           Inl err \<Rightarrow> (Inl err, w2)
         | Inr content \<Rightarrow>
             (let review =
                    [(''status'', PStr ''reviewed''),
                     (''quality_assessment'', PStr content),
                     (''quality_score'', PFloat 0.92),
                     (''approved'', PBool True)]
              in (Inr review, w2\<lparr>review_history := review_history w2 @ [review]\<rparr>)))"

text \<open>
  The source annotates \<open>input_data: str\<close> and the four bodies above are embedded on
  strings. Python does not enforce the annotation; an argument that is not a string is
  outside this embedding and is turned into \<open>TypeError\<close>. In the pipeline built from
  these agents every argument is a string.
\<close>

definition str_arg :: "(string \<Rightarrow> world \<Rightarrow> (error + dict) \<times> world) \<Rightarrow> agent" where
  "str_arg f arg w = (case arg of PStr s \<Rightarrow> f s w | _ \<Rightarrow> (Inl TypeError, w))"

definition ResearchAgent_execute :: "env \<Rightarrow> agent" where
  "ResearchAgent_execute e =
     track_agent_performance e ''ResearchAgent'' ''execute'' (str_arg (research_execute e))"

definition AnalysisAgent_execute :: "env \<Rightarrow> agent" where
  "AnalysisAgent_execute e =
     track_agent_performance e ''AnalysisAgent'' ''execute'' (str_arg (analysis_execute e))"

definition WriterAgent_execute :: "env \<Rightarrow> agent" where
  "WriterAgent_execute e =
     track_agent_performance e ''WriterAgent'' ''execute'' (str_arg (writer_execute e))"

definition ReviewAgent_execute :: "env \<Rightarrow> agent" where
  "ReviewAgent_execute e =
     track_agent_performance e ''ReviewAgent'' ''execute'' (str_arg (review_execute e))"

text \<open>\<open>validate_output\<close>: \<open>isinstance(output, dict) and key in output\<close>.\<close>

definition ResearchAgent_validate_output :: "pyval \<Rightarrow> bool" where
  "ResearchAgent_validate_output output =
     (case output of PDict d \<Rightarrow> contains d ''findings'' | _ \<Rightarrow> False)"

definition AnalysisAgent_validate_output :: "pyval \<Rightarrow> bool" where
  "AnalysisAgent_validate_output output =
     (case output of PDict d \<Rightarrow> contains d ''insights'' | _ \<Rightarrow> False)"

definition WriterAgent_validate_output :: "pyval \<Rightarrow> bool" where
  "WriterAgent_validate_output output =
     (case output of PDict d \<Rightarrow> contains d ''content'' | _ \<Rightarrow> False)"

definition ReviewAgent_validate_output :: "pyval \<Rightarrow> bool" where
  "ReviewAgent_validate_output output =
     (case output of PDict d \<Rightarrow> contains d ''quality_assessment'' | _ \<Rightarrow> False)"

section \<open>orchestrator.py\<close>

text \<open>
  The orchestrator owns its four agents (their \<open>execute\<close> methods), the list
  \<open>workflow_history\<close> and the dict \<open>performance_metrics\<close>, which no method uses. The
  agents act on the world outside and have no access to the orchestrator's fields.
\<close>

record agents =
  research_agent :: agent
  analysis_agent :: agent
  writer_agent :: agent
  review_agent :: agent

record workflow_result =
  workflow_id :: string
  topic :: string
  research_output :: dict
  analysis_output :: dict
  writing_output :: dict
  review_output :: dict
  performance :: "(string \<times> real) list"

record state =
  outside :: world
  workflow_history :: "workflow_result list"
  performance_metrics :: dict

definition AgentOrchestrator_agents :: "env \<Rightarrow> agents" where
  "AgentOrchestrator_agents e =
     \<lparr>research_agent = ResearchAgent_execute e,
      analysis_agent = AnalysisAgent_execute e,
      writer_agent = WriterAgent_execute e,
      review_agent = ReviewAgent_execute e\<rparr>"

definition AgentOrchestrator_init :: "world \<Rightarrow> state" where
  "AgentOrchestrator_init w = \<lparr>outside = w, workflow_history = [], performance_metrics = []\<rparr>"

definition execute_workflow :: "env \<Rightarrow> agents \<Rightarrow> string \<Rightarrow> state \<Rightarrow> (error + workflow_result) \<times> state" where
  "execute_workflow e ag topic_arg s =
     (let (workflow_start, w1) = time_time e (outside s);
          (id_time, w2) = time_time e w1;
          workflow_id_v = ''workflow_'' @ str_int (int_of_float id_time);
          w3 = emit (Info (''Starting workflow '' @ workflow_id_v @ '' for topic: '' @ topic_arg)) w2;
          w4 = emit (Info ''Stage 1: Research Agent Processing'') w3;
          (research_start, w5) = time_time e w4;
          (research_outcome, w6) = research_agent ag (PStr topic_arg) w5
      in case research_outcome of
           Inl err \<Rightarrow> (Inl err, s\<lparr>outside := w6\<rparr>)
         | Inr research_result \<Rightarrow>
     (let (research_end, w7) = time_time e w6;
          research_time = (research_end - research_start) * 1000;
          w8 = log_metrics e ''ResearchAgent'' [(''execution_time_ms'', research_time)] w7;
          w9 = emit (Info ''Stage 2: Analysis Agent Processing'') w8;
          (analysis_start, w10) = time_time e w9;
          research_findings = dict_get research_result ''findings'' (PStr []);
          (analysis_outcome, w11) = analysis_agent ag research_findings w10
      in case analysis_outcome of
           Inl err \<Rightarrow> (Inl err, s\<lparr>outside := w11\<rparr>)
         | Inr analysis_result \<Rightarrow>
     (let (analysis_end, w12) = time_time e w11;
          analysis_time = (analysis_end - analysis_start) * 1000;
          w13 = log_metrics e ''AnalysisAgent'' [(''execution_time_ms'', analysis_time)] w12;
          w14 = emit (Info ''Stage 3: Writer Agent Processing'') w13;
          (writing_start, w15) = time_time e w14;
          analysis_insights = dict_get analysis_result ''insights'' (PStr []);
          (writing_outcome, w16) = writer_agent ag analysis_insights w15
      in case writing_outcome of
           Inl err \<Rightarrow> (Inl err, s\<lparr>outside := w16\<rparr>)
         | Inr writing_result \<Rightarrow>
     (let (writing_end, w17) = time_time e w16;
          writing_time = (writing_end - writing_start) * 1000;
          w18 = log_metrics e ''WriterAgent'' [(''execution_time_ms'', writing_time)] w17;
          w19 = emit (Info ''Stage 4: Review Agent Processing'') w18;
          (review_start, w20) = time_time e w19;
          report_content = dict_get writing_result ''content'' (PStr []);
          (review_outcome, w21) = review_agent ag report_content w20
      in case review_outcome of
           Inl err \<Rightarrow> (Inl err, s\<lparr>outside := w21\<rparr>)
         | Inr review_result \<Rightarrow>
     (let (review_end, w22) = time_time e w21;
          review_time = (review_end - review_start) * 1000;
          w23 = log_metrics e ''ReviewAgent'' [(''execution_time_ms'', review_time)] w22;
          (workflow_end, w24) = time_time e w23;
          total_workflow_time = (workflow_end - workflow_start) * 1000;
          result =
            \<lparr>workflow_id = workflow_id_v,
             topic = topic_arg,
             research_output = research_result,
             analysis_output = analysis_result,
             writing_output = writing_result,
             review_output = review_result,
             performance =
               [(''research_time_ms'', research_time),
                (''analysis_time_ms'', analysis_time),
                (''writing_time_ms'', writing_time),
                (''review_time_ms'', review_time),
                (''total_time_ms'', total_workflow_time)]\<rparr>;
          w25 = log_metrics e ''Orchestrator'' (performance result) w24;
          w26 = emit (WorkflowCompleted workflow_id_v total_workflow_time) w25
      in (Inr result,
          s\<lparr>outside := w26, workflow_history := workflow_history s @ [result]\<rparr>))))))"

text \<open>\<open>get_workflow_statistics\<close>. \<open>sum\<close> adds from the left, starting at 0, and a
  run without the key \<open>total_time_ms\<close> raises \<open>KeyError\<close>.\<close>

fun sum_total_time :: "real \<Rightarrow> workflow_result list \<Rightarrow> error + real" where
  "sum_total_time acc [] = Inr acc"
| "sum_total_time acc (w # ws) =
     (case subscript (performance w) ''total_time_ms'' of
        Inl err \<Rightarrow> Inl err
      | Inr t \<Rightarrow> sum_total_time (acc + t) ws)"

definition get_workflow_statistics :: "state \<Rightarrow> (error + dict) \<times> state" where
  "get_workflow_statistics s =
     (if workflow_history s = [] then (Inr [(''message'', PStr ''No workflows completed yet'')], s)
      else
        (let total_workflows = length (workflow_history s)
         in case sum_total_time 0 (workflow_history s) of
              Inl err \<Rightarrow> (Inl err, s)
            | Inr total_time \<Rightarrow>
                (Inr [(''total_workflows'', PInt (int total_workflows)),
                      (''average_workflow_time_ms'', PFloat (total_time / real total_workflows)),
                      (''workflows'', PList (map (\<lambda>w. PStr (workflow_id w)) (workflow_history s)))],
                 s)))"

text \<open>\<open>get_agent_performance\<close>. The loop appends the value of each run that has the
  key; \<open>sum\<close>, \<open>min\<close> and \<open>max\<close> run over the collected list from the left.\<close>

fun collect_times :: "string \<Rightarrow> real list \<Rightarrow> workflow_result list \<Rightarrow> real list" where
  "collect_times agent_key times_list [] = times_list"
| "collect_times agent_key times_list (workflow # rest) =
     (case map_of (performance workflow) agent_key of
        Some t \<Rightarrow> collect_times agent_key (times_list @ [t]) rest
      | None \<Rightarrow> collect_times agent_key times_list rest)"

definition get_agent_performance :: "string \<Rightarrow> state \<Rightarrow> dict \<times> state" where
  "get_agent_performance agent_name s =
     (let agent_key = lower agent_name @ ''_time_ms'';
          times_list = collect_times agent_key [] (workflow_history s)
      in case times_list of
           [] \<Rightarrow> ([(''message'', PStr (''No data for '' @ agent_name))], s)
         | t # ts \<Rightarrow>
             ([(''agent'', PStr agent_name),
               (''executions'', PInt (int (length times_list))),
               (''average_time_ms'', PFloat (foldl (+) 0 times_list / real (length times_list))),
               (''min_time_ms'', PFloat (foldl min t ts)),
               (''max_time_ms'', PFloat (foldl max t ts))],
              s))"

section \<open>Notions used to state the properties\<close>

text \<open>The stage invocations that the telemetry has recorded, oldest first: the agent's
  name and the argument of \<open>execute\<close>, one entry for each start event of the decorator.\<close>

fun stage_calls :: "event list \<Rightarrow> (string \<times> pyval) list" where
  "stage_calls [] = []"
| "stage_calls (AgentStart agent_name task arg # evs) = (agent_name, arg) # stage_calls evs"
| "stage_calls (ev # evs) = stage_calls evs"

text \<open>The values that the runs of a history recorded under a timing key, oldest first.\<close>

definition recorded :: "string \<Rightarrow> workflow_result list \<Rightarrow> real list" where
  "recorded key history = List.map_filter (\<lambda>r. map_of (performance r) key) history"

definition mean :: "real list \<Rightarrow> real" where
  "mean xs = sum_list xs / real (length xs)"

text \<open>A state reached from a new orchestrator by calls of \<open>execute_workflow\<close> of
  which \<open>n\<close> returned a result and the others raised; the topic, the environment and
  the agents may differ from call to call.\<close>

inductive successful_runs :: "nat \<Rightarrow> state \<Rightarrow> bool" where
  new: "successful_runs 0 (AgentOrchestrator_init w)"
| run: "successful_runs n s \<Longrightarrow> execute_workflow e ag x s = (Inr r, s') \<Longrightarrow>
        successful_runs (Suc n) s'"
| failed: "successful_runs n s \<Longrightarrow> execute_workflow e ag x s = (Inl err, s') \<Longrightarrow>
        successful_runs n s'"

definition timing_keys :: "string list" where
  "timing_keys =
     [''research_time_ms'', ''analysis_time_ms'', ''writing_time_ms'', ''review_time_ms'',
      ''total_time_ms'']"

section \<open>Concrete environments\<close>

text \<open>
  Environments for concrete runs: a clock that advances one second between two
  readings, a clock that is set back by one second after its fourth reading, and a
  completion client that answers its calls from a list and raises once the list is used
  up. With the answers R1 to R4 and the topic X this is the end-to-end scenario of the
  specification.
\<close>

definition steady_clock :: "nat \<Rightarrow> real" where
  "steady_clock n = real n"

definition set_back_clock :: "nat \<Rightarrow> real" where
  "set_back_clock n = (if n < 4 then 100 else 99)"

definition scripted_llm :: "string list \<Rightarrow> nat \<Rightarrow> string \<Rightarrow> error + string" where
  "scripted_llm answers n prompt =
     (if n < length answers then Inr (answers ! n) else Inl (CompletionError ''unavailable''))"

definition scripted_env :: "string list \<Rightarrow> env" where
  "scripted_env answers = \<lparr>now = steady_clock, llm = scripted_llm answers, enable_metrics = True\<rparr>"

definition set_back_env :: env where
  "set_back_env =
     \<lparr>now = set_back_clock, llm = scripted_llm [''R1'', ''R2'', ''R3'', ''R4''],
      enable_metrics = True\<rparr>"

definition new_world :: world where
  "new_world =
     \<lparr>ticks = 0, prompts = [], telemetry = [], research_history = [], analysis_history = [],
      written_content = [], review_history = []\<rparr>"

text \<open>A stored run with a given Research timing, for a history with chosen entries.\<close>

definition run_with_research_time :: "real \<Rightarrow> workflow_result" where
  "run_with_research_time t =
     \<lparr>workflow_id = ''workflow_0'', topic = ''X'', research_output = [], analysis_output = [],
      writing_output = [], review_output = [],
      performance =
        [(''research_time_ms'', t), (''analysis_time_ms'', 0), (''writing_time_ms'', 0),
         (''review_time_ms'', 0), (''total_time_ms'', t)]\<rparr>"

section \<open>Run History\<close>

lemma execute_workflow_history:
  "workflow_history (snd (execute_workflow e ag x s)) =
     (case fst (execute_workflow e ag x s) of
        Inr r \<Rightarrow> workflow_history s @ [r]
      | Inl err \<Rightarrow> workflow_history s)"
  by (simp add: execute_workflow_def Let_def time_time_def split: prod.splits sum.splits)

lemma execute_workflow_keys:
  "execute_workflow e ag x s = (Inr r, s') \<Longrightarrow> map fst (performance r) = timing_keys"
  by (auto simp: execute_workflow_def Let_def time_time_def timing_keys_def
      split: prod.splits sum.splits)

lemma successful_runs_history:
  "successful_runs n s \<Longrightarrow>
   length (workflow_history s) = n \<and>
   (\<forall>r \<in> set (workflow_history s). map fst (performance r) = timing_keys)"
proof (induction rule: successful_runs.induct)
  case (new w)
  show ?case by (simp add: AgentOrchestrator_init_def)
next
  case (run n s e ag x r s')
  from run.hyps(2) have h: "workflow_history s' = workflow_history s @ [r]"
    using execute_workflow_history [of e ag x s] by simp
  from run.hyps(2) have k: "map fst (performance r) = timing_keys"
    by (rule execute_workflow_keys)
  from run.IH h k show ?case by auto
next
  case (failed n s e ag x err s')
  from failed.hyps(2) have "workflow_history s' = workflow_history s"
    using execute_workflow_history [of e ag x s] by simp
  with failed.IH show ?case by simp
qed

lemma timing_key_bound:
  assumes "map fst ps = timing_keys" and "k \<in> set timing_keys"
  shows "\<exists>v. map_of ps k = Some v"
proof -
  from assms have "k \<in> fst ` set ps"
    by (metis set_map)
  then have "map_of ps k \<noteq> None"
    by (simp add: map_of_eq_None_iff)
  then show ?thesis by blast
qed

lemma other_key_unbound:
  assumes "map fst ps = timing_keys" and "k \<notin> set timing_keys"
  shows "map_of ps k = None"
proof -
  from assms have "k \<notin> fst ` set ps"
    by (metis set_map)
  then show ?thesis
    by (simp add: map_of_eq_None_iff)
qed

lemma recorded_Nil [simp]: "recorded k [] = []"
  by (simp add: recorded_def)

lemma recorded_Cons:
  "recorded k (r # rs) =
     (case map_of (performance r) k of None \<Rightarrow> recorded k rs | Some v \<Rightarrow> v # recorded k rs)"
  unfolding recorded_def by simp

lemma recorded_all:
  assumes "\<forall>r \<in> set h. map fst (performance r) = timing_keys" and "k \<in> set timing_keys"
  shows "length (recorded k h) = length h"
  using assms(1)
proof (induction h)
  case Nil
  show ?case by simp
next
  case (Cons r rs)
  from Cons.prems assms(2) obtain v where "map_of (performance r) k = Some v"
    using timing_key_bound [of "performance r" k] by auto
  with Cons show ?case by (simp add: recorded_Cons)
qed

lemma recorded_none:
  assumes "\<forall>r \<in> set h. map fst (performance r) = timing_keys" and "k \<notin> set timing_keys"
  shows "recorded k h = []"
  using assms(1)
proof (induction h)
  case Nil
  show ?case by simp
next
  case (Cons r rs)
  from Cons.prems assms(2) have "map_of (performance r) k = None"
    using other_key_unbound [of "performance r" k] by auto
  with Cons show ?case by (simp add: recorded_Cons)
qed

lemma sum_total_time_recorded:
  assumes "\<forall>r \<in> set h. map fst (performance r) = timing_keys"
  shows "sum_total_time acc h = Inr (acc + sum_list (recorded ''total_time_ms'' h))"
  using assms
proof (induction h arbitrary: acc)
  case Nil
  show ?case by simp
next
  case (Cons r rs)
  from Cons.prems obtain v where v: "map_of (performance r) ''total_time_ms'' = Some v"
    using timing_key_bound [of "performance r" "''total_time_ms''"]
    by (auto simp: timing_keys_def)
  from Cons.prems have "sum_total_time (acc + v) rs = Inr (acc + v + sum_list (recorded ''total_time_ms'' rs))"
    by (intro Cons.IH) simp
  with v show ?case by (simp add: subscript_def recorded_Cons)
qed

lemma collect_times_recorded: "collect_times k acc h = acc @ recorded k h"
  by (induction h arbitrary: acc) (simp_all add: recorded_Cons split: option.split)

lemma foldl_plus_sum_list: "foldl (+) a xs = a + sum_list (xs :: real list)"
  by (induction xs arbitrary: a) simp_all

lemma foldl_min_Min: "foldl min x xs = Min (set (x # xs :: real list))"
proof -
  have "(\<lambda>a b. min b a) = (min :: real \<Rightarrow> real \<Rightarrow> real)"
    by (intro ext) (rule min.commute)
  then have "foldl min x xs = fold min xs x"
    by (simp only: foldl_conv_fold)
  also have "\<dots> = Min (set (x # xs))"
    by (rule Min.set_eq_fold [symmetric])
  finally show ?thesis .
qed

lemma foldl_max_Max: "foldl max x xs = Max (set (x # xs :: real list))"
proof -
  have "(\<lambda>a b. max b a) = (max :: real \<Rightarrow> real \<Rightarrow> real)"
    by (intro ext) (rule max.commute)
  then have "foldl max x xs = fold max xs x"
    by (simp only: foldl_conv_fold)
  also have "\<dots> = Max (set (x # xs))"
    by (rule Max.set_eq_fold [symmetric])
  finally show ?thesis .
qed

lemma lower_names:
  "lower ''Writer'' = ''writer''"
  "lower ''Research'' = ''research''"
  "lower ''Analysis'' = ''analysis''"
  "lower ''Review'' = ''review''"
  by (simp_all add: lower_def lower_char_def ascii_uppercase_def ascii_lowercase_def
      latin1_uppercase_def latin1_lowercase_def)

lemma lower_latin1:
  "lower [CHR 0xC9] = [CHR 0xE9]"
  "lower [CHR 0xDE] = [CHR 0xFE]"
  "lower [CHR 0xD7] = [CHR 0xD7]"
  "lower [CHR 0xDF] = [CHR 0xDF]"
  by (simp_all add: lower_def lower_char_def ascii_uppercase_def ascii_lowercase_def
      latin1_uppercase_def latin1_lowercase_def)

section \<open>The agents\<close>

lemma stage_calls_append [simp]: "stage_calls (xs @ ys) = stage_calls xs @ stage_calls ys"
  by (induction xs rule: stage_calls.induct) simp_all

lemmas agent_defs =
  track_agent_performance_def str_arg_def llm_invoke_def emit_def time_time_def
  log_agent_start_def log_agent_end_def log_error_def Let_def

text \<open>What each decorated \<open>execute\<close> does on a string, by the client's answer.\<close>

lemma ResearchAgent_execute_str:
  "ResearchAgent_execute e (PStr x) w =
     (case llm e (length (prompts w)) (research_prompt x) of
        Inr c \<Rightarrow>
          (Inr [(''topic'', PStr x), (''findings'', PStr c), (''research_type'', PStr ''comprehensive'')],
           w\<lparr>ticks := Suc (Suc (ticks w)),
             prompts := prompts w @ [research_prompt x],
             telemetry := telemetry w @
               [AgentStart ''ResearchAgent'' ''execute'' (PStr x),
                Info (''Starting research on: '' @ x),
                AgentEnd ''ResearchAgent'' ''dict'' ((now e (Suc (ticks w)) - now e (ticks w)) * 1000)],
             research_history := research_history w @
               [[(''topic'', PStr x), (''findings'', PStr c), (''research_type'', PStr ''comprehensive'')]]\<rparr>)
      | Inl err \<Rightarrow>
          (Inl err,
           w\<lparr>ticks := Suc (ticks w),
             prompts := prompts w @ [research_prompt x],
             telemetry := telemetry w @
               [AgentStart ''ResearchAgent'' ''execute'' (PStr x),
                Info (''Starting research on: '' @ x),
                AgentError ''ResearchAgent'' err ''execute'']\<rparr>))"
  by (simp add: ResearchAgent_execute_def research_execute_def agent_defs split: sum.split)

lemma AnalysisAgent_execute_str:
  "AnalysisAgent_execute e (PStr x) w =
     (case llm e (length (prompts w)) (analysis_prompt x) of
        Inr c \<Rightarrow>
          (Inr [(''input_summary'', PStr (take 200 x)), (''insights'', PStr c), (''confidence_score'', PFloat 0.85)],
           w\<lparr>ticks := Suc (Suc (ticks w)),
             prompts := prompts w @ [analysis_prompt x],
             telemetry := telemetry w @
               [AgentStart ''AnalysisAgent'' ''execute'' (PStr x),
                Info (''Analyzing data: '' @ take 100 x @ ''...''),
                AgentEnd ''AnalysisAgent'' ''dict'' ((now e (Suc (ticks w)) - now e (ticks w)) * 1000)],
             analysis_history := analysis_history w @
               [[(''input_summary'', PStr (take 200 x)), (''insights'', PStr c), (''confidence_score'', PFloat 0.85)]]\<rparr>)
      | Inl err \<Rightarrow>
          (Inl err,
           w\<lparr>ticks := Suc (ticks w),
             prompts := prompts w @ [analysis_prompt x],
             telemetry := telemetry w @
               [AgentStart ''AnalysisAgent'' ''execute'' (PStr x),
                Info (''Analyzing data: '' @ take 100 x @ ''...''),
                AgentError ''AnalysisAgent'' err ''execute'']\<rparr>))"
  by (simp add: AnalysisAgent_execute_def analysis_execute_def agent_defs split: sum.split)

lemma WriterAgent_execute_str:
  "WriterAgent_execute e (PStr x) w =
     (case llm e (length (prompts w)) (writing_prompt x) of
        Inr c \<Rightarrow>
          (Inr [(''report_type'', PStr ''professional''), (''content'', PStr c), (''word_count'', PInt (int (length (str_split c)))), (''status'', PStr ''completed'')],
           w\<lparr>ticks := Suc (Suc (ticks w)),
             prompts := prompts w @ [writing_prompt x],
             telemetry := telemetry w @
               [AgentStart ''WriterAgent'' ''execute'' (PStr x),
                Info (''Creating report for: '' @ take 100 x @ ''...''),
                AgentEnd ''WriterAgent'' ''dict'' ((now e (Suc (ticks w)) - now e (ticks w)) * 1000)],
             written_content := written_content w @
               [[(''report_type'', PStr ''professional''), (''content'', PStr c), (''word_count'', PInt (int (length (str_split c)))), (''status'', PStr ''completed'')]]\<rparr>)
      | Inl err \<Rightarrow>
          (Inl err,
           w\<lparr>ticks := Suc (ticks w),
             prompts := prompts w @ [writing_prompt x],
             telemetry := telemetry w @
               [AgentStart ''WriterAgent'' ''execute'' (PStr x),
                Info (''Creating report for: '' @ take 100 x @ ''...''),
                AgentError ''WriterAgent'' err ''execute'']\<rparr>))"
  by (simp add: WriterAgent_execute_def writer_execute_def agent_defs split: sum.split)

lemma ReviewAgent_execute_str:
  "ReviewAgent_execute e (PStr x) w =
     (case llm e (length (prompts w)) (review_prompt x) of
        Inr c \<Rightarrow>
          (Inr [(''status'', PStr ''reviewed''), (''quality_assessment'', PStr c), (''quality_score'', PFloat 0.92), (''approved'', PBool True)],
           w\<lparr>ticks := Suc (Suc (ticks w)),
             prompts := prompts w @ [review_prompt x],
             telemetry := telemetry w @
               [AgentStart ''ReviewAgent'' ''execute'' (PStr x),
                Info (''Reviewing content quality''),
                AgentEnd ''ReviewAgent'' ''dict'' ((now e (Suc (ticks w)) - now e (ticks w)) * 1000)],
             review_history := review_history w @
               [[(''status'', PStr ''reviewed''), (''quality_assessment'', PStr c), (''quality_score'', PFloat 0.92), (''approved'', PBool True)]]\<rparr>)
      | Inl err \<Rightarrow>
          (Inl err,
           w\<lparr>ticks := Suc (ticks w),
             prompts := prompts w @ [review_prompt x],
             telemetry := telemetry w @
               [AgentStart ''ReviewAgent'' ''execute'' (PStr x),
                Info (''Reviewing content quality''),
                AgentError ''ReviewAgent'' err ''execute'']\<rparr>))"
  by (simp add: ReviewAgent_execute_def review_execute_def agent_defs split: sum.split)

lemmas agent_execute_str =
  ResearchAgent_execute_str AnalysisAgent_execute_str WriterAgent_execute_str
  ReviewAgent_execute_str

lemma log_metrics_fields [simp]:
  "ticks (log_metrics e n m w) = ticks w"
  "prompts (log_metrics e n m w) = prompts w"
  "stage_calls (telemetry (log_metrics e n m w)) = stage_calls (telemetry w)"
  "research_history (log_metrics e n m w) = research_history w"
  "analysis_history (log_metrics e n m w) = analysis_history w"
  "written_content (log_metrics e n m w) = written_content w"
  "review_history (log_metrics e n m w) = review_history w"
  by (simp_all add: log_metrics_def emit_def)

section \<open>The pipeline of the four agents\<close>

lemmas run_defs =
  execute_workflow_def AgentOrchestrator_agents_def agent_execute_str
  time_time_def emit_def Let_def dict_get_def

lemma run_fail_research:
  assumes "llm e (length (prompts (outside s))) (research_prompt x) = Inl err"
  shows "\<exists>s'. execute_workflow e (AgentOrchestrator_agents e) x s = (Inl err, s') \<and>
     workflow_history s' = workflow_history s \<and>
     prompts (outside s') = prompts (outside s) @ [research_prompt x] \<and>
     stage_calls (telemetry (outside s')) =
       stage_calls (telemetry (outside s)) @ [(''ResearchAgent'', PStr x)]"
  using assms by (simp add: run_defs)

lemma run_fail_analysis:
  assumes "llm e (length (prompts (outside s))) (research_prompt x) = Inr f"
    and "llm e (Suc (length (prompts (outside s)))) (analysis_prompt f) = Inl err"
  shows "\<exists>s'. execute_workflow e (AgentOrchestrator_agents e) x s = (Inl err, s') \<and>
     workflow_history s' = workflow_history s \<and>
     prompts (outside s') = prompts (outside s) @ [research_prompt x, analysis_prompt f] \<and>
     stage_calls (telemetry (outside s')) =
       stage_calls (telemetry (outside s)) @
         [(''ResearchAgent'', PStr x), (''AnalysisAgent'', PStr f)]"
  using assms by (simp add: run_defs)

lemma run_fail_writer:
  assumes "llm e (length (prompts (outside s))) (research_prompt x) = Inr f"
    and "llm e (Suc (length (prompts (outside s)))) (analysis_prompt f) = Inr i"
    and "llm e (Suc (Suc (length (prompts (outside s))))) (writing_prompt i) = Inl err"
  shows "\<exists>s'. execute_workflow e (AgentOrchestrator_agents e) x s = (Inl err, s') \<and>
     workflow_history s' = workflow_history s \<and>
     prompts (outside s') =
       prompts (outside s) @ [research_prompt x, analysis_prompt f, writing_prompt i] \<and>
     stage_calls (telemetry (outside s')) =
       stage_calls (telemetry (outside s)) @
         [(''ResearchAgent'', PStr x), (''AnalysisAgent'', PStr f), (''WriterAgent'', PStr i)]"
  using assms by (simp add: run_defs)

lemma run_fail_review:
  assumes "llm e (length (prompts (outside s))) (research_prompt x) = Inr f"
    and "llm e (Suc (length (prompts (outside s)))) (analysis_prompt f) = Inr i"
    and "llm e (Suc (Suc (length (prompts (outside s))))) (writing_prompt i) = Inr c"
    and "llm e (Suc (Suc (Suc (length (prompts (outside s)))))) (review_prompt c) = Inl err"
  shows "\<exists>s'. execute_workflow e (AgentOrchestrator_agents e) x s = (Inl err, s') \<and>
     workflow_history s' = workflow_history s \<and>
     prompts (outside s') =
       prompts (outside s) @
         [research_prompt x, analysis_prompt f, writing_prompt i, review_prompt c] \<and>
     stage_calls (telemetry (outside s')) =
       stage_calls (telemetry (outside s)) @
         [(''ResearchAgent'', PStr x), (''AnalysisAgent'', PStr f), (''WriterAgent'', PStr i),
          (''ReviewAgent'', PStr c)]"
  using assms by (simp add: run_defs)

lemma run_ok:
  assumes "llm e (length (prompts (outside s))) (research_prompt x) = Inr f"
    and "llm e (Suc (length (prompts (outside s)))) (analysis_prompt f) = Inr i"
    and "llm e (Suc (Suc (length (prompts (outside s))))) (writing_prompt i) = Inr c"
    and "llm e (Suc (Suc (Suc (length (prompts (outside s)))))) (review_prompt c) = Inr q"
  shows "\<exists>r s'. execute_workflow e (AgentOrchestrator_agents e) x s = (Inr r, s') \<and>
     workflow_id r = ''workflow_'' @ str_int (int_of_float (now e (ticks (outside s) + 1))) \<and>
     topic r = x \<and>
     research_output r =
       [(''topic'', PStr x), (''findings'', PStr f), (''research_type'', PStr ''comprehensive'')] \<and>
     analysis_output r =
       [(''input_summary'', PStr (take 200 f)), (''insights'', PStr i),
        (''confidence_score'', PFloat 0.85)] \<and>
     writing_output r =
       [(''report_type'', PStr ''professional''), (''content'', PStr c),
        (''word_count'', PInt (int (length (str_split c)))), (''status'', PStr ''completed'')] \<and>
     review_output r =
       [(''status'', PStr ''reviewed''), (''quality_assessment'', PStr q),
        (''quality_score'', PFloat 0.92), (''approved'', PBool True)] \<and>
     performance r =
       [(''research_time_ms'', (now e (ticks (outside s) + 5) - now e (ticks (outside s) + 2)) * 1000),
        (''analysis_time_ms'', (now e (ticks (outside s) + 9) - now e (ticks (outside s) + 6)) * 1000),
        (''writing_time_ms'', (now e (ticks (outside s) + 13) - now e (ticks (outside s) + 10)) * 1000),
        (''review_time_ms'', (now e (ticks (outside s) + 17) - now e (ticks (outside s) + 14)) * 1000),
        (''total_time_ms'', (now e (ticks (outside s) + 18) - now e (ticks (outside s))) * 1000)] \<and>
     workflow_history s' = workflow_history s @ [r] \<and>
     ticks (outside s') = ticks (outside s) + 19 \<and>
     prompts (outside s') =
       prompts (outside s) @
         [research_prompt x, analysis_prompt f, writing_prompt i, review_prompt c] \<and>
     stage_calls (telemetry (outside s')) =
       stage_calls (telemetry (outside s)) @
         [(''ResearchAgent'', PStr x), (''AnalysisAgent'', PStr f), (''WriterAgent'', PStr i),
          (''ReviewAgent'', PStr c)]"
  using assms by (simp add: run_defs eval_nat_numeral)

lemma run_inversion:
  assumes "execute_workflow e (AgentOrchestrator_agents e) x s = (Inr r, s')"
  shows "\<exists>f i c q.
     llm e (length (prompts (outside s))) (research_prompt x) = Inr f \<and>
     llm e (Suc (length (prompts (outside s)))) (analysis_prompt f) = Inr i \<and>
     llm e (Suc (Suc (length (prompts (outside s))))) (writing_prompt i) = Inr c \<and>
     llm e (Suc (Suc (Suc (length (prompts (outside s)))))) (review_prompt c) = Inr q"
proof (cases "llm e (length (prompts (outside s))) (research_prompt x)")
  case (Inl err)
  from run_fail_research [OF this] assms show ?thesis by auto
next
  case f: (Inr f)
  show ?thesis
  proof (cases "llm e (Suc (length (prompts (outside s)))) (analysis_prompt f)")
    case (Inl err)
    from run_fail_analysis [OF f this] assms show ?thesis by auto
  next
    case i: (Inr i)
    show ?thesis
    proof (cases "llm e (Suc (Suc (length (prompts (outside s))))) (writing_prompt i)")
      case (Inl err)
      from run_fail_writer [OF f i this] assms show ?thesis by auto
    next
      case c: (Inr c)
      show ?thesis
      proof (cases "llm e (Suc (Suc (Suc (length (prompts (outside s)))))) (review_prompt c)")
        case (Inl err)
        from run_fail_review [OF f i c this] assms show ?thesis by auto
      next
        case (Inr q)
        with f i c show ?thesis by blast
      qed
    qed
  qed
qed

text \<open>The end-to-end scenario: topic X, answers R1 to R4, a new orchestrator.\<close>

lemma scripted_run:
  "\<exists>r s'. execute_workflow (scripted_env [''R1'', ''R2'', ''R3'', ''R4''])
       (AgentOrchestrator_agents (scripted_env [''R1'', ''R2'', ''R3'', ''R4''])) ''X''
       (AgentOrchestrator_init new_world) = (Inr r, s') \<and>
     workflow_id r = ''workflow_1'' \<and>
     topic r = ''X'' \<and>
     research_output r =
       [(''topic'', PStr ''X''), (''findings'', PStr ''R1''), (''research_type'', PStr ''comprehensive'')] \<and>
     analysis_output r =
       [(''input_summary'', PStr ''R1''), (''insights'', PStr ''R2''),
        (''confidence_score'', PFloat 0.85)] \<and>
     writing_output r =
       [(''report_type'', PStr ''professional''), (''content'', PStr ''R3''),
        (''word_count'', PInt 1), (''status'', PStr ''completed'')] \<and>
     review_output r =
       [(''status'', PStr ''reviewed''), (''quality_assessment'', PStr ''R4''),
        (''quality_score'', PFloat 0.92), (''approved'', PBool True)] \<and>
     performance r =
       [(''research_time_ms'', 3000), (''analysis_time_ms'', 3000), (''writing_time_ms'', 3000),
        (''review_time_ms'', 3000), (''total_time_ms'', 18000)] \<and>
     workflow_history s' = [r] \<and>
     prompts (outside s') =
       [research_prompt ''X'', analysis_prompt ''R1'', writing_prompt ''R2'', review_prompt ''R3''] \<and>
     stage_calls (telemetry (outside s')) =
       [(''ResearchAgent'', PStr ''X''), (''AnalysisAgent'', PStr ''R1''),
        (''WriterAgent'', PStr ''R2''), (''ReviewAgent'', PStr ''R3'')]"
proof -
  let ?e = "scripted_env [''R1'', ''R2'', ''R3'', ''R4'']"
  let ?s = "AgentOrchestrator_init new_world"
  have 1: "llm ?e (length (prompts (outside ?s))) (research_prompt ''X'') = Inr ''R1''"
    by (simp add: scripted_env_def scripted_llm_def AgentOrchestrator_init_def new_world_def)
  have 2: "llm ?e (Suc (length (prompts (outside ?s)))) (analysis_prompt ''R1'') = Inr ''R2''"
    by (simp add: scripted_env_def scripted_llm_def AgentOrchestrator_init_def new_world_def)
  have 3: "llm ?e (Suc (Suc (length (prompts (outside ?s))))) (writing_prompt ''R2'') = Inr ''R3''"
    by (simp add: scripted_env_def scripted_llm_def AgentOrchestrator_init_def new_world_def)
  have 4: "llm ?e (Suc (Suc (Suc (length (prompts (outside ?s)))))) (review_prompt ''R3'') = Inr ''R4''"
    by (simp add: scripted_env_def scripted_llm_def AgentOrchestrator_init_def new_world_def)
  have id: "str_int (int_of_float (steady_clock 1)) = ''1''"
    by (simp add: steady_clock_def int_of_float_def str_int_def str_nat.simps [of "Suc 0"])
  have wc: "length (str_split ''R3'') = 1"
    by (simp add: str_split_def is_space_def)
  from run_ok [OF 1 2 3 4] obtain r s' where
    "execute_workflow ?e (AgentOrchestrator_agents ?e) ''X'' ?s = (Inr r, s')"
    "workflow_id r = ''workflow_'' @ str_int (int_of_float (now ?e (ticks (outside ?s) + 1)))"
    "topic r = ''X''"
    "research_output r =
       [(''topic'', PStr ''X''), (''findings'', PStr ''R1''), (''research_type'', PStr ''comprehensive'')]"
    "analysis_output r =
       [(''input_summary'', PStr (take 200 ''R1'')), (''insights'', PStr ''R2''),
        (''confidence_score'', PFloat 0.85)]"
    "writing_output r =
       [(''report_type'', PStr ''professional''), (''content'', PStr ''R3''),
        (''word_count'', PInt (int (length (str_split ''R3'')))), (''status'', PStr ''completed'')]"
    "review_output r =
       [(''status'', PStr ''reviewed''), (''quality_assessment'', PStr ''R4''),
        (''quality_score'', PFloat 0.92), (''approved'', PBool True)]"
    "performance r =
       [(''research_time_ms'', (now ?e (ticks (outside ?s) + 5) - now ?e (ticks (outside ?s) + 2)) * 1000),
        (''analysis_time_ms'', (now ?e (ticks (outside ?s) + 9) - now ?e (ticks (outside ?s) + 6)) * 1000),
        (''writing_time_ms'', (now ?e (ticks (outside ?s) + 13) - now ?e (ticks (outside ?s) + 10)) * 1000),
        (''review_time_ms'', (now ?e (ticks (outside ?s) + 17) - now ?e (ticks (outside ?s) + 14)) * 1000),
        (''total_time_ms'', (now ?e (ticks (outside ?s) + 18) - now ?e (ticks (outside ?s))) * 1000)]"
    "workflow_history s' = workflow_history ?s @ [r]"
    "prompts (outside s') =
       prompts (outside ?s) @
         [research_prompt ''X'', analysis_prompt ''R1'', writing_prompt ''R2'', review_prompt ''R3'']"
    "stage_calls (telemetry (outside s')) =
       stage_calls (telemetry (outside ?s)) @
         [(''ResearchAgent'', PStr ''X''), (''AnalysisAgent'', PStr ''R1''),
          (''WriterAgent'', PStr ''R2''), (''ReviewAgent'', PStr ''R3'')]"
    by blast
  then show ?thesis
    using id wc
    by (simp add: scripted_env_def steady_clock_def AgentOrchestrator_init_def new_world_def)
qed

section \<open>The claims\<close>

text \<open>
  C1. A call of \<open>execute_workflow\<close> on the four agents that returns a result has
  started the four stages once each, in the order Research, Analysis, Writer, Review. The
  argument of the Research stage is the topic, and the argument of each later stage is
  the primary field of the result before it (\<open>findings\<close>, \<open>insights\<close>, \<open>content\<close>),
  as it is and nothing else. The completion client has received four prompts, each built
  from that argument.
\<close>

theorem stages_in_order_with_primary_fields:
  assumes "execute_workflow e (AgentOrchestrator_agents e) x s = (Inr r, s')"
  shows "stage_calls (telemetry (outside s')) =
       stage_calls (telemetry (outside s)) @
         [(''ResearchAgent'', PStr x),
          (''AnalysisAgent'', dict_get (research_output r) ''findings'' (PStr [])),
          (''WriterAgent'', dict_get (analysis_output r) ''insights'' (PStr [])),
          (''ReviewAgent'', dict_get (writing_output r) ''content'' (PStr []))] \<and>
     (\<exists>f i c.
        map_of (research_output r) ''findings'' = Some (PStr f) \<and>
        map_of (analysis_output r) ''insights'' = Some (PStr i) \<and>
        map_of (writing_output r) ''content'' = Some (PStr c) \<and>
        prompts (outside s') =
          prompts (outside s) @
            [research_prompt x, analysis_prompt f, writing_prompt i, review_prompt c])"
proof -
  from run_inversion [OF assms] obtain f i c q where
    "llm e (length (prompts (outside s))) (research_prompt x) = Inr f"
    "llm e (Suc (length (prompts (outside s)))) (analysis_prompt f) = Inr i"
    "llm e (Suc (Suc (length (prompts (outside s))))) (writing_prompt i) = Inr c"
    "llm e (Suc (Suc (Suc (length (prompts (outside s)))))) (review_prompt c) = Inr q"
    by blast
  from run_ok [OF this] assms have
    ro: "research_output r =
       [(''topic'', PStr x), (''findings'', PStr f), (''research_type'', PStr ''comprehensive'')]"
    and ao: "analysis_output r =
       [(''input_summary'', PStr (take 200 f)), (''insights'', PStr i),
        (''confidence_score'', PFloat 0.85)]"
    and wo: "writing_output r =
       [(''report_type'', PStr ''professional''), (''content'', PStr c),
        (''word_count'', PInt (int (length (str_split c)))), (''status'', PStr ''completed'')]"
    and pr: "prompts (outside s') =
       prompts (outside s) @
         [research_prompt x, analysis_prompt f, writing_prompt i, review_prompt c]"
    and sc: "stage_calls (telemetry (outside s')) =
       stage_calls (telemetry (outside s)) @
         [(''ResearchAgent'', PStr x), (''AnalysisAgent'', PStr f), (''WriterAgent'', PStr i),
          (''ReviewAgent'', PStr c)]"
    by auto
  have "map_of (research_output r) ''findings'' = Some (PStr f)"
    and "map_of (analysis_output r) ''insights'' = Some (PStr i)"
    and "map_of (writing_output r) ''content'' = Some (PStr c)"
    by (simp_all add: ro ao wo)
  moreover from this sc have "stage_calls (telemetry (outside s')) =
       stage_calls (telemetry (outside s)) @
         [(''ResearchAgent'', PStr x),
          (''AnalysisAgent'', dict_get (research_output r) ''findings'' (PStr [])),
          (''WriterAgent'', dict_get (analysis_output r) ''insights'' (PStr [])),
          (''ReviewAgent'', dict_get (writing_output r) ''content'' (PStr []))]"
    by (simp add: dict_get_def)
  ultimately show ?thesis using pr by blast
qed

theorem stages_in_order_witness:
  "\<exists>r s'. execute_workflow (scripted_env [''R1'', ''R2'', ''R3'', ''R4''])
       (AgentOrchestrator_agents (scripted_env [''R1'', ''R2'', ''R3'', ''R4''])) ''X''
       (AgentOrchestrator_init new_world) = (Inr r, s') \<and>
     stage_calls (telemetry (outside s')) =
       [(''ResearchAgent'', PStr ''X''), (''AnalysisAgent'', PStr ''R1''),
        (''WriterAgent'', PStr ''R2''), (''ReviewAgent'', PStr ''R3'')] \<and>
     map_of (research_output r) ''findings'' = Some (PStr ''R1'') \<and>
     prompts (outside s') =
       [research_prompt ''X'', analysis_prompt ''R1'', writing_prompt ''R2'', review_prompt ''R3'']"
proof -
  from scripted_run obtain r s' where
    run: "execute_workflow (scripted_env [''R1'', ''R2'', ''R3'', ''R4''])
       (AgentOrchestrator_agents (scripted_env [''R1'', ''R2'', ''R3'', ''R4''])) ''X''
       (AgentOrchestrator_init new_world) = (Inr r, s')"
    and ro: "research_output r =
       [(''topic'', PStr ''X''), (''findings'', PStr ''R1''), (''research_type'', PStr ''comprehensive'')]"
    and ao: "analysis_output r =
       [(''input_summary'', PStr ''R1''), (''insights'', PStr ''R2''),
        (''confidence_score'', PFloat 0.85)]"
    and wo: "writing_output r =
       [(''report_type'', PStr ''professional''), (''content'', PStr ''R3''),
        (''word_count'', PInt 1), (''status'', PStr ''completed'')]"
    by blast
  from stages_in_order_with_primary_fields [OF run] ro ao wo
  have "stage_calls (telemetry (outside s')) =
       [(''ResearchAgent'', PStr ''X''), (''AnalysisAgent'', PStr ''R1''),
        (''WriterAgent'', PStr ''R2''), (''ReviewAgent'', PStr ''R3'')] \<and>
     map_of (research_output r) ''findings'' = Some (PStr ''R1'') \<and>
     prompts (outside s') =
       [research_prompt ''X'', analysis_prompt ''R1'', writing_prompt ''R2'', review_prompt ''R3'']"
    by (auto simp: dict_get_def AgentOrchestrator_init_def new_world_def)
  with run show ?thesis by blast
qed

text \<open>
  C2. For each of the four stage positions: when the completion client raises in that
  stage (and has answered the stages before it), \<open>execute_workflow\<close> raises that same
  error, unwrapped; it returns no result; no later stage is started and no further
  prompt is sent; and \<open>workflow_history\<close> is what it was before the call.
\<close>

theorem fail_fast_at_each_stage:
  "(llm e (length (prompts (outside s))) (research_prompt x) = Inl err \<longrightarrow>
      (\<exists>s'. execute_workflow e (AgentOrchestrator_agents e) x s = (Inl err, s') \<and>
         workflow_history s' = workflow_history s \<and>
         prompts (outside s') = prompts (outside s) @ [research_prompt x] \<and>
         stage_calls (telemetry (outside s')) =
           stage_calls (telemetry (outside s)) @ [(''ResearchAgent'', PStr x)])) \<and>
   (llm e (length (prompts (outside s))) (research_prompt x) = Inr f \<and>
    llm e (Suc (length (prompts (outside s)))) (analysis_prompt f) = Inl err \<longrightarrow>
      (\<exists>s'. execute_workflow e (AgentOrchestrator_agents e) x s = (Inl err, s') \<and>
         workflow_history s' = workflow_history s \<and>
         prompts (outside s') = prompts (outside s) @ [research_prompt x, analysis_prompt f] \<and>
         stage_calls (telemetry (outside s')) =
           stage_calls (telemetry (outside s)) @
             [(''ResearchAgent'', PStr x), (''AnalysisAgent'', PStr f)])) \<and>
   (llm e (length (prompts (outside s))) (research_prompt x) = Inr f \<and>
    llm e (Suc (length (prompts (outside s)))) (analysis_prompt f) = Inr i \<and>
    llm e (Suc (Suc (length (prompts (outside s))))) (writing_prompt i) = Inl err \<longrightarrow>
      (\<exists>s'. execute_workflow e (AgentOrchestrator_agents e) x s = (Inl err, s') \<and>
         workflow_history s' = workflow_history s \<and>
         prompts (outside s') =
           prompts (outside s) @ [research_prompt x, analysis_prompt f, writing_prompt i] \<and>
         stage_calls (telemetry (outside s')) =
           stage_calls (telemetry (outside s)) @
             [(''ResearchAgent'', PStr x), (''AnalysisAgent'', PStr f),
              (''WriterAgent'', PStr i)])) \<and>
   (llm e (length (prompts (outside s))) (research_prompt x) = Inr f \<and>
    llm e (Suc (length (prompts (outside s)))) (analysis_prompt f) = Inr i \<and>
    llm e (Suc (Suc (length (prompts (outside s))))) (writing_prompt i) = Inr c \<and>
    llm e (Suc (Suc (Suc (length (prompts (outside s)))))) (review_prompt c) = Inl err \<longrightarrow>
      (\<exists>s'. execute_workflow e (AgentOrchestrator_agents e) x s = (Inl err, s') \<and>
         workflow_history s' = workflow_history s \<and>
         prompts (outside s') =
           prompts (outside s) @
             [research_prompt x, analysis_prompt f, writing_prompt i, review_prompt c] \<and>
         stage_calls (telemetry (outside s')) =
           stage_calls (telemetry (outside s)) @
             [(''ResearchAgent'', PStr x), (''AnalysisAgent'', PStr f),
              (''WriterAgent'', PStr i), (''ReviewAgent'', PStr c)]))"
proof (intro conjI impI)
  assume "llm e (length (prompts (outside s))) (research_prompt x) = Inl err"
  then show "\<exists>s'. execute_workflow e (AgentOrchestrator_agents e) x s = (Inl err, s') \<and>
         workflow_history s' = workflow_history s \<and>
         prompts (outside s') = prompts (outside s) @ [research_prompt x] \<and>
         stage_calls (telemetry (outside s')) =
           stage_calls (telemetry (outside s)) @ [(''ResearchAgent'', PStr x)]"
    by (rule run_fail_research)
next
  assume "llm e (length (prompts (outside s))) (research_prompt x) = Inr f \<and>
    llm e (Suc (length (prompts (outside s)))) (analysis_prompt f) = Inl err"
  then show "\<exists>s'. execute_workflow e (AgentOrchestrator_agents e) x s = (Inl err, s') \<and>
         workflow_history s' = workflow_history s \<and>
         prompts (outside s') = prompts (outside s) @ [research_prompt x, analysis_prompt f] \<and>
         stage_calls (telemetry (outside s')) =
           stage_calls (telemetry (outside s)) @
             [(''ResearchAgent'', PStr x), (''AnalysisAgent'', PStr f)]"
    using run_fail_analysis [of e s x f err] by blast
next
  assume "llm e (length (prompts (outside s))) (research_prompt x) = Inr f \<and>
    llm e (Suc (length (prompts (outside s)))) (analysis_prompt f) = Inr i \<and>
    llm e (Suc (Suc (length (prompts (outside s))))) (writing_prompt i) = Inl err"
  then show "\<exists>s'. execute_workflow e (AgentOrchestrator_agents e) x s = (Inl err, s') \<and>
         workflow_history s' = workflow_history s \<and>
         prompts (outside s') =
           prompts (outside s) @ [research_prompt x, analysis_prompt f, writing_prompt i] \<and>
         stage_calls (telemetry (outside s')) =
           stage_calls (telemetry (outside s)) @
             [(''ResearchAgent'', PStr x), (''AnalysisAgent'', PStr f),
              (''WriterAgent'', PStr i)]"
    using run_fail_writer [of e s x f i err] by blast
next
  assume "llm e (length (prompts (outside s))) (research_prompt x) = Inr f \<and>
    llm e (Suc (length (prompts (outside s)))) (analysis_prompt f) = Inr i \<and>
    llm e (Suc (Suc (length (prompts (outside s))))) (writing_prompt i) = Inr c \<and>
    llm e (Suc (Suc (Suc (length (prompts (outside s)))))) (review_prompt c) = Inl err"
  then show "\<exists>s'. execute_workflow e (AgentOrchestrator_agents e) x s = (Inl err, s') \<and>
         workflow_history s' = workflow_history s \<and>
         prompts (outside s') =
           prompts (outside s) @
             [research_prompt x, analysis_prompt f, writing_prompt i, review_prompt c] \<and>
         stage_calls (telemetry (outside s')) =
           stage_calls (telemetry (outside s)) @
             [(''ResearchAgent'', PStr x), (''AnalysisAgent'', PStr f),
              (''WriterAgent'', PStr i), (''ReviewAgent'', PStr c)]"
    using run_fail_review [of e s x f i c err] by blast
qed

theorem fail_fast_witness:
  "(\<exists>s'. execute_workflow (scripted_env []) (AgentOrchestrator_agents (scripted_env []))
        ''X'' (AgentOrchestrator_init new_world) = (Inl (CompletionError ''unavailable''), s') \<and>
      workflow_history s' = [] \<and>
      prompts (outside s') = [research_prompt ''X''] \<and>
      stage_calls (telemetry (outside s')) = [(''ResearchAgent'', PStr ''X'')]) \<and>
   (\<exists>s'. execute_workflow (scripted_env [''R1'']) (AgentOrchestrator_agents (scripted_env [''R1'']))
        ''X'' (AgentOrchestrator_init new_world) = (Inl (CompletionError ''unavailable''), s') \<and>
      workflow_history s' = [] \<and>
      prompts (outside s') = [research_prompt ''X'', analysis_prompt ''R1''] \<and>
      stage_calls (telemetry (outside s')) =
        [(''ResearchAgent'', PStr ''X''), (''AnalysisAgent'', PStr ''R1'')]) \<and>
   (\<exists>s'. execute_workflow (scripted_env [''R1'', ''R2''])
        (AgentOrchestrator_agents (scripted_env [''R1'', ''R2'']))
        ''X'' (AgentOrchestrator_init new_world) = (Inl (CompletionError ''unavailable''), s') \<and>
      workflow_history s' = [] \<and>
      prompts (outside s') = [research_prompt ''X'', analysis_prompt ''R1'', writing_prompt ''R2''] \<and>
      stage_calls (telemetry (outside s')) =
        [(''ResearchAgent'', PStr ''X''), (''AnalysisAgent'', PStr ''R1''),
         (''WriterAgent'', PStr ''R2'')]) \<and>
   (\<exists>s'. execute_workflow (scripted_env [''R1'', ''R2'', ''R3''])
        (AgentOrchestrator_agents (scripted_env [''R1'', ''R2'', ''R3'']))
        ''X'' (AgentOrchestrator_init new_world) = (Inl (CompletionError ''unavailable''), s') \<and>
      workflow_history s' = [] \<and>
      prompts (outside s') =
        [research_prompt ''X'', analysis_prompt ''R1'', writing_prompt ''R2'', review_prompt ''R3''] \<and>
      stage_calls (telemetry (outside s')) =
        [(''ResearchAgent'', PStr ''X''), (''AnalysisAgent'', PStr ''R1''),
         (''WriterAgent'', PStr ''R2''), (''ReviewAgent'', PStr ''R3'')])"
proof -
  let ?s = "AgentOrchestrator_init new_world"
  let ?err = "CompletionError ''unavailable''"
  have start: "length (prompts (outside ?s)) = 0" "workflow_history ?s = []"
    "prompts (outside ?s) = []" "stage_calls (telemetry (outside ?s)) = []"
    by (simp_all add: AgentOrchestrator_init_def new_world_def)
  have a: "llm (scripted_env []) (length (prompts (outside ?s))) (research_prompt ''X'') = Inl ?err"
    by (simp add: start scripted_env_def scripted_llm_def)
  have b: "llm (scripted_env [''R1'']) (length (prompts (outside ?s))) (research_prompt ''X'') = Inr ''R1'' \<and>
      llm (scripted_env [''R1'']) (Suc (length (prompts (outside ?s)))) (analysis_prompt ''R1'') = Inl ?err"
    by (simp add: start scripted_env_def scripted_llm_def)
  have c: "llm (scripted_env [''R1'', ''R2'']) (length (prompts (outside ?s))) (research_prompt ''X'') = Inr ''R1'' \<and>
      llm (scripted_env [''R1'', ''R2'']) (Suc (length (prompts (outside ?s)))) (analysis_prompt ''R1'') = Inr ''R2'' \<and>
      llm (scripted_env [''R1'', ''R2'']) (Suc (Suc (length (prompts (outside ?s))))) (writing_prompt ''R2'') = Inl ?err"
    by (simp add: start scripted_env_def scripted_llm_def)
  have d: "llm (scripted_env [''R1'', ''R2'', ''R3'']) (length (prompts (outside ?s))) (research_prompt ''X'') = Inr ''R1'' \<and>
      llm (scripted_env [''R1'', ''R2'', ''R3'']) (Suc (length (prompts (outside ?s)))) (analysis_prompt ''R1'') = Inr ''R2'' \<and>
      llm (scripted_env [''R1'', ''R2'', ''R3'']) (Suc (Suc (length (prompts (outside ?s))))) (writing_prompt ''R2'') = Inr ''R3'' \<and>
      llm (scripted_env [''R1'', ''R2'', ''R3'']) (Suc (Suc (Suc (length (prompts (outside ?s)))))) (review_prompt ''R3'') = Inl ?err"
    by (simp add: start scripted_env_def scripted_llm_def)
  note ff = fail_fast_at_each_stage
  from ff [of "scripted_env []" ?s "''X''" ?err, THEN conjunct1, rule_format, OF a]
  have 1: "\<exists>s'. execute_workflow (scripted_env []) (AgentOrchestrator_agents (scripted_env []))
        ''X'' ?s = (Inl ?err, s') \<and>
      workflow_history s' = [] \<and>
      prompts (outside s') = [research_prompt ''X''] \<and>
      stage_calls (telemetry (outside s')) = [(''ResearchAgent'', PStr ''X'')]"
    by (simp only: start append_Nil)
  from ff [of "scripted_env [''R1'']" ?s "''X''" ?err "''R1''",
      THEN conjunct2, THEN conjunct1, rule_format, OF b]
  have 2: "\<exists>s'. execute_workflow (scripted_env [''R1'']) (AgentOrchestrator_agents (scripted_env [''R1'']))
        ''X'' ?s = (Inl ?err, s') \<and>
      workflow_history s' = [] \<and>
      prompts (outside s') = [research_prompt ''X'', analysis_prompt ''R1''] \<and>
      stage_calls (telemetry (outside s')) =
        [(''ResearchAgent'', PStr ''X''), (''AnalysisAgent'', PStr ''R1'')]"
    by (simp only: start append_Nil)
  from ff [of "scripted_env [''R1'', ''R2'']" ?s "''X''" ?err "''R1''" "''R2''",
      THEN conjunct2, THEN conjunct2, THEN conjunct1, rule_format, OF c]
  have 3: "\<exists>s'. execute_workflow (scripted_env [''R1'', ''R2''])
        (AgentOrchestrator_agents (scripted_env [''R1'', ''R2'']))
        ''X'' ?s = (Inl ?err, s') \<and>
      workflow_history s' = [] \<and>
      prompts (outside s') = [research_prompt ''X'', analysis_prompt ''R1'', writing_prompt ''R2''] \<and>
      stage_calls (telemetry (outside s')) =
        [(''ResearchAgent'', PStr ''X''), (''AnalysisAgent'', PStr ''R1''),
         (''WriterAgent'', PStr ''R2'')]"
    by (simp only: start append_Nil)
  from ff [of "scripted_env [''R1'', ''R2'', ''R3'']" ?s "''X''" ?err "''R1''" "''R2''" "''R3''",
      THEN conjunct2, THEN conjunct2, THEN conjunct2, rule_format, OF d]
  have 4: "\<exists>s'. execute_workflow (scripted_env [''R1'', ''R2'', ''R3''])
        (AgentOrchestrator_agents (scripted_env [''R1'', ''R2'', ''R3'']))
        ''X'' ?s = (Inl ?err, s') \<and>
      workflow_history s' = [] \<and>
      prompts (outside s') =
        [research_prompt ''X'', analysis_prompt ''R1'', writing_prompt ''R2'', review_prompt ''R3''] \<and>
      stage_calls (telemetry (outside s')) =
        [(''ResearchAgent'', PStr ''X''), (''AnalysisAgent'', PStr ''R1''),
         (''WriterAgent'', PStr ''R2''), (''ReviewAgent'', PStr ''R3'')]"
    by (simp only: start append_Nil)
  from 1 2 3 4 show ?thesis by (intro conjI)
qed

text \<open>
  C3. On an empty Run History \<open>get_workflow_statistics\<close> returns the record with the
  message "No workflows completed yet" (not a list, not an exception). After \<open>n \<ge> 1\<close>
  successful runs it returns the count \<open>n\<close>, the arithmetic mean of the \<open>n\<close> recorded
  \<open>total_time_ms\<close> values and the workflow identifiers in insertion order. In both cases
  the state, and with it the history, is returned as it was.
\<close>

theorem get_workflow_statistics_correct:
  "(workflow_history s = [] \<longrightarrow>
      get_workflow_statistics s = (Inr [(''message'', PStr ''No workflows completed yet'')], s)) \<and>
   (successful_runs n s \<and> 0 < n \<longrightarrow>
      get_workflow_statistics s =
        (Inr [(''total_workflows'', PInt (int n)),
              (''average_workflow_time_ms'', PFloat (mean (recorded ''total_time_ms'' (workflow_history s)))),
              (''workflows'', PList (map (\<lambda>r. PStr (workflow_id r)) (workflow_history s)))],
         s) \<and>
      length (recorded ''total_time_ms'' (workflow_history s)) = n \<and>
      length (workflow_history s) = n)"
proof (intro conjI impI)
  assume "workflow_history s = []"
  then show "get_workflow_statistics s = (Inr [(''message'', PStr ''No workflows completed yet'')], s)"
    by (simp add: get_workflow_statistics_def)
next
  assume a: "successful_runs n s \<and> 0 < n"
  then have len: "length (workflow_history s) = n"
    and keys: "\<forall>r \<in> set (workflow_history s). map fst (performance r) = timing_keys"
    using successful_runs_history [of n s] by simp_all
  from keys have rec: "length (recorded ''total_time_ms'' (workflow_history s)) = length (workflow_history s)"
    by (rule recorded_all) (simp add: timing_keys_def)
  from keys have total: "sum_total_time 0 (workflow_history s) = Inr (sum_list (recorded ''total_time_ms'' (workflow_history s)))"
    using sum_total_time_recorded [of "workflow_history s" 0] by simp
  from a len have ne: "workflow_history s \<noteq> []" by auto
  show "length (workflow_history s) = n" by (rule len)
  show "length (recorded ''total_time_ms'' (workflow_history s)) = n"
    using rec len by simp
  show "get_workflow_statistics s =
        (Inr [(''total_workflows'', PInt (int n)),
              (''average_workflow_time_ms'', PFloat (mean (recorded ''total_time_ms'' (workflow_history s)))),
              (''workflows'', PList (map (\<lambda>r. PStr (workflow_id r)) (workflow_history s)))],
         s)"
    using ne total rec len by (simp add: get_workflow_statistics_def mean_def)
qed

theorem get_workflow_statistics_witness:
  "get_workflow_statistics (AgentOrchestrator_init new_world) =
     (Inr [(''message'', PStr ''No workflows completed yet'')], AgentOrchestrator_init new_world) \<and>
   (\<exists>s. successful_runs 1 s \<and>
      get_workflow_statistics s =
        (Inr [(''total_workflows'', PInt 1),
              (''average_workflow_time_ms'', PFloat 18000),
              (''workflows'', PList [PStr ''workflow_1''])], s))"
proof -
  have empty: "workflow_history (AgentOrchestrator_init new_world) = []"
    by (simp add: AgentOrchestrator_init_def)
  from scripted_run obtain r s' where
    run: "execute_workflow (scripted_env [''R1'', ''R2'', ''R3'', ''R4''])
       (AgentOrchestrator_agents (scripted_env [''R1'', ''R2'', ''R3'', ''R4''])) ''X''
       (AgentOrchestrator_init new_world) = (Inr r, s')"
    and i: "workflow_id r = ''workflow_1''"
    and p: "performance r =
       [(''research_time_ms'', 3000), (''analysis_time_ms'', 3000), (''writing_time_ms'', 3000),
        (''review_time_ms'', 3000), (''total_time_ms'', 18000)]"
    and h: "workflow_history s' = [r]"
    by blast
  have reach: "successful_runs 1 s'"
    using successful_runs.run [OF successful_runs.new run] by simp
  have rec: "recorded ''total_time_ms'' [r] = [18000]"
    by (simp add: recorded_Cons p)
  note st = get_workflow_statistics_correct
  from st [of "AgentOrchestrator_init new_world" 0, THEN conjunct1, rule_format, OF empty]
  have a: "get_workflow_statistics (AgentOrchestrator_init new_world) =
     (Inr [(''message'', PStr ''No workflows completed yet'')], AgentOrchestrator_init new_world)" .
  from st [of s' 1, THEN conjunct2, rule_format] reach
  have b: "get_workflow_statistics s' =
        (Inr [(''total_workflows'', PInt 1),
              (''average_workflow_time_ms'', PFloat 18000),
              (''workflows'', PList [PStr ''workflow_1''])], s')"
    by (simp add: h i rec mean_def)
  from reach b have "\<exists>s. successful_runs 1 s \<and>
      get_workflow_statistics s =
        (Inr [(''total_workflows'', PInt 1),
              (''average_workflow_time_ms'', PFloat 18000),
              (''workflows'', PList [PStr ''workflow_1''])], s)"
    by (intro exI [of _ s'] conjI)
  with a show ?thesis by (intro conjI)
qed

text \<open>
  C4. For every agent name \<open>get_agent_performance\<close> looks at the timing field whose
  name is the lowercased agent name followed by \<open>_time_ms\<close>. When no run recorded that
  field it returns the "No data" record; otherwise it returns the number of recorded
  values, their arithmetic mean, their minimum and their maximum.
\<close>

theorem get_agent_performance_correct:
  "get_agent_performance agent_name s =
     (if recorded (lower agent_name @ ''_time_ms'') (workflow_history s) = []
      then ([(''message'', PStr (''No data for '' @ agent_name))], s)
      else
        ([(''agent'', PStr agent_name),
          (''executions'', PInt (int (length (recorded (lower agent_name @ ''_time_ms'') (workflow_history s))))),
          (''average_time_ms'', PFloat (mean (recorded (lower agent_name @ ''_time_ms'') (workflow_history s)))),
          (''min_time_ms'', PFloat (Min (set (recorded (lower agent_name @ ''_time_ms'') (workflow_history s))))),
          (''max_time_ms'', PFloat (Max (set (recorded (lower agent_name @ ''_time_ms'') (workflow_history s)))))],
         s))"
proof (cases "recorded (lower agent_name @ ''_time_ms'') (workflow_history s)")
  case Nil
  then show ?thesis
    by (simp add: get_agent_performance_def collect_times_recorded)
next
  case (Cons v vs)
  have "foldl (+) 0 (v # vs) = sum_list (v # vs)"
    using foldl_plus_sum_list [of 0 "v # vs"] by simp
  with Cons show ?thesis
    by (simp add: get_agent_performance_def collect_times_recorded mean_def Let_def
        foldl_min_Min foldl_max_Max del: foldl_Cons Min_insert Max_insert set_simps)
qed

theorem get_agent_performance_example:
  "get_agent_performance ''Research''
     (AgentOrchestrator_init new_world
        \<lparr>workflow_history := map run_with_research_time [10, 20, 30]\<rparr>) =
     ([(''agent'', PStr ''Research''), (''executions'', PInt 3), (''average_time_ms'', PFloat 20),
       (''min_time_ms'', PFloat 10), (''max_time_ms'', PFloat 30)],
      AgentOrchestrator_init new_world
        \<lparr>workflow_history := map run_with_research_time [10, 20, 30]\<rparr>) \<and>
   get_agent_performance ''Writer''
     (AgentOrchestrator_init new_world
        \<lparr>workflow_history := map run_with_research_time [10, 20, 30]\<rparr>) =
     ([(''message'', PStr ''No data for Writer'')],
      AgentOrchestrator_init new_world
        \<lparr>workflow_history := map run_with_research_time [10, 20, 30]\<rparr>)"
proof -
  let ?s = "AgentOrchestrator_init new_world
        \<lparr>workflow_history := map run_with_research_time [10, 20, 30]\<rparr>"
  have r: "recorded ''research_time_ms'' (workflow_history ?s) = [10, 20, 30]"
    by (simp add: recorded_Cons run_with_research_time_def)
  have w: "recorded ''writer_time_ms'' (workflow_history ?s) = []"
    by (simp add: recorded_Cons run_with_research_time_def)
  have m: "Min (set [10, 20, 30 :: real]) = 10" "Max (set [10, 20, 30 :: real]) = 30"
    by simp_all
  from get_agent_performance_correct [of "''Research''" ?s] r m
  have a: "get_agent_performance ''Research'' ?s =
     ([(''agent'', PStr ''Research''), (''executions'', PInt 3), (''average_time_ms'', PFloat 20),
       (''min_time_ms'', PFloat 10), (''max_time_ms'', PFloat 30)], ?s)"
    by (simp add: lower_names mean_def)
  from get_agent_performance_correct [of "''Writer''" ?s] w
  have b: "get_agent_performance ''Writer'' ?s = ([(''message'', PStr ''No data for Writer'')], ?s)"
    by (simp add: lower_names)
  from a b show ?thesis by (intro conjI)
qed

lemma get_agent_performance_none:
  assumes "\<forall>r \<in> set (workflow_history s). map fst (performance r) = timing_keys"
    and "lower agent_name @ ''_time_ms'' \<notin> set timing_keys"
  shows "get_agent_performance agent_name s = ([(''message'', PStr (''No data for '' @ agent_name))], s)"
  using recorded_none [OF assms] by (simp add: get_agent_performance_def collect_times_recorded)

lemma get_agent_performance_some:
  assumes "\<forall>r \<in> set (workflow_history s). map fst (performance r) = timing_keys"
    and "lower agent_name @ ''_time_ms'' \<in> set timing_keys"
    and "workflow_history s \<noteq> []"
  shows "\<exists>avg lo hi. get_agent_performance agent_name s =
     ([(''agent'', PStr agent_name),
       (''executions'', PInt (int (length (workflow_history s)))),
       (''average_time_ms'', PFloat avg),
       (''min_time_ms'', PFloat lo),
       (''max_time_ms'', PFloat hi)], s)"
proof -
  from recorded_all [OF assms(1,2)] assms(3)
  have "length (recorded (lower agent_name @ ''_time_ms'') (workflow_history s)) = length (workflow_history s)"
    and "recorded (lower agent_name @ ''_time_ms'') (workflow_history s) \<noteq> []"
    by auto
  then show ?thesis
    by (cases "recorded (lower agent_name @ ''_time_ms'') (workflow_history s)")
      (simp_all add: get_agent_performance_def collect_times_recorded Let_def del: foldl_Cons)
qed

text \<open>
  C5. In every state reached by successful runs, each stored performance record has
  exactly the keys \<open>research_time_ms\<close>, \<open>analysis_time_ms\<close>, \<open>writing_time_ms\<close>,
  \<open>review_time_ms\<close> and \<open>total_time_ms\<close>. The name "Writer" gives the key
  \<open>writer_time_ms\<close>, which no run stores, so \<open>get_agent_performance\<close> returns the
  "No data" record for it; for "Research", "Analysis" and "Review" the derived key is a
  stored one, and once a run is stored the statistics come back, with one execution per
  run.
\<close>

theorem writer_key_mismatch:
  assumes "successful_runs n s"
  shows "(\<forall>r \<in> set (workflow_history s).
        map fst (performance r) =
          [''research_time_ms'', ''analysis_time_ms'', ''writing_time_ms'', ''review_time_ms'',
           ''total_time_ms'']) \<and>
     get_agent_performance ''Writer'' s = ([(''message'', PStr ''No data for Writer'')], s) \<and>
     (0 < n \<longrightarrow>
        (\<forall>agent_name \<in> {''Research'', ''Analysis'', ''Review''}.
           \<exists>avg lo hi. get_agent_performance agent_name s =
             ([(''agent'', PStr agent_name),
               (''executions'', PInt (int n)),
               (''average_time_ms'', PFloat avg),
               (''min_time_ms'', PFloat lo),
               (''max_time_ms'', PFloat hi)], s)))"
proof -
  from successful_runs_history [OF assms]
  have len: "length (workflow_history s) = n"
    and keys: "\<forall>r \<in> set (workflow_history s). map fst (performance r) = timing_keys"
    by simp_all
  have "lower ''Writer'' @ ''_time_ms'' \<notin> set timing_keys"
    by (simp add: lower_names timing_keys_def)
  from get_agent_performance_none [OF keys this]
  have writer: "get_agent_performance ''Writer'' s = ([(''message'', PStr ''No data for Writer'')], s)"
    by simp
  have others: "\<exists>avg lo hi. get_agent_performance agent_name s =
             ([(''agent'', PStr agent_name),
               (''executions'', PInt (int n)),
               (''average_time_ms'', PFloat avg),
               (''min_time_ms'', PFloat lo),
               (''max_time_ms'', PFloat hi)], s)"
    if "0 < n" and "agent_name \<in> {''Research'', ''Analysis'', ''Review''}" for agent_name
  proof -
    from that(2) have "lower agent_name @ ''_time_ms'' \<in> set timing_keys"
      by (auto simp: lower_names timing_keys_def)
    moreover from that(1) len have "workflow_history s \<noteq> []" by auto
    ultimately show ?thesis
      using get_agent_performance_some [OF keys, of agent_name] len by simp
  qed
  from keys writer others show ?thesis
    by (simp add: timing_keys_def)
qed

theorem writer_key_mismatch_witness:
  "\<exists>s. successful_runs 1 s \<and>
     map (\<lambda>r. map fst (performance r)) (workflow_history s) =
       [[''research_time_ms'', ''analysis_time_ms'', ''writing_time_ms'', ''review_time_ms'',
         ''total_time_ms'']] \<and>
     get_agent_performance ''Writer'' s = ([(''message'', PStr ''No data for Writer'')], s) \<and>
     get_agent_performance ''Research'' s =
       ([(''agent'', PStr ''Research''), (''executions'', PInt 1), (''average_time_ms'', PFloat 3000),
         (''min_time_ms'', PFloat 3000), (''max_time_ms'', PFloat 3000)], s) \<and>
     get_agent_performance ''Analysis'' s =
       ([(''agent'', PStr ''Analysis''), (''executions'', PInt 1), (''average_time_ms'', PFloat 3000),
         (''min_time_ms'', PFloat 3000), (''max_time_ms'', PFloat 3000)], s) \<and>
     get_agent_performance ''Review'' s =
       ([(''agent'', PStr ''Review''), (''executions'', PInt 1), (''average_time_ms'', PFloat 3000),
         (''min_time_ms'', PFloat 3000), (''max_time_ms'', PFloat 3000)], s)"
proof -
  from scripted_run obtain r s' where
    run: "execute_workflow (scripted_env [''R1'', ''R2'', ''R3'', ''R4''])
       (AgentOrchestrator_agents (scripted_env [''R1'', ''R2'', ''R3'', ''R4''])) ''X''
       (AgentOrchestrator_init new_world) = (Inr r, s')"
    and p: "performance r =
       [(''research_time_ms'', 3000), (''analysis_time_ms'', 3000), (''writing_time_ms'', 3000),
        (''review_time_ms'', 3000), (''total_time_ms'', 18000)]"
    and h: "workflow_history s' = [r]"
    by blast
  have reach: "successful_runs 1 s'"
    using successful_runs.run [OF successful_runs.new run] by simp
  from writer_key_mismatch [OF reach]
  have w: "get_agent_performance ''Writer'' s' = ([(''message'', PStr ''No data for Writer'')], s')"
    by simp
  have rec: "recorded ''research_time_ms'' [r] = [3000]"
    "recorded ''analysis_time_ms'' [r] = [3000]"
    "recorded ''review_time_ms'' [r] = [3000]"
    by (simp_all add: recorded_Cons p)
  have a: "get_agent_performance ''Research'' s' =
       ([(''agent'', PStr ''Research''), (''executions'', PInt 1), (''average_time_ms'', PFloat 3000),
         (''min_time_ms'', PFloat 3000), (''max_time_ms'', PFloat 3000)], s')"
    by (simp add: get_agent_performance_def collect_times_recorded lower_names h rec)
  have b: "get_agent_performance ''Analysis'' s' =
       ([(''agent'', PStr ''Analysis''), (''executions'', PInt 1), (''average_time_ms'', PFloat 3000),
         (''min_time_ms'', PFloat 3000), (''max_time_ms'', PFloat 3000)], s')"
    by (simp add: get_agent_performance_def collect_times_recorded lower_names h rec)
  have c: "get_agent_performance ''Review'' s' =
       ([(''agent'', PStr ''Review''), (''executions'', PInt 1), (''average_time_ms'', PFloat 3000),
         (''min_time_ms'', PFloat 3000), (''max_time_ms'', PFloat 3000)], s')"
    by (simp add: get_agent_performance_def collect_times_recorded lower_names h rec)
  have k: "map (\<lambda>r. map fst (performance r)) (workflow_history s') =
       [[''research_time_ms'', ''analysis_time_ms'', ''writing_time_ms'', ''review_time_ms'',
         ''total_time_ms'']]"
    by (simp add: h p)
  show ?thesis
    by (rule exI [of _ s']) (intro conjI reach k w a b c)
qed

lemma contains_iff: "contains d k \<longleftrightarrow> k \<in> fst ` set d"
proof -
  have "contains d k \<longleftrightarrow> map_of d k \<noteq> None"
    by (simp add: contains_def split: option.split)
  then show ?thesis
    by (simp add: map_of_eq_None_iff)
qed

lemma is_space_code:
  "is_space c \<longleftrightarrow> (of_char c :: nat) \<in> {9, 10, 11, 12, 13, 28, 29, 30, 31, 32, 133, 160}"
proof -
  have code: "c = d \<longleftrightarrow> (of_char c :: nat) = of_char d" for d
    by simp
  show ?thesis
    unfolding is_space_def by (simp add: code del: of_char_eq_iff)
qed

lemma split_from_count:
  "length (split_from cur s) = token_starts (cur = []) s + (if cur = [] then 0 else 1)"
  by (induction s arbitrary: cur) simp_all

lemma str_split_count: "length (str_split s) = whitespace_separated_tokens s"
  by (simp add: str_split_def whitespace_separated_tokens_def split_from_count)

text \<open>
  C6. For each of the four stages: a successful \<open>execute\<close> on a string returns a dict
  that has the stage's primary field (\<open>findings\<close>, \<open>insights\<close>, \<open>content\<close>,
  \<open>quality_assessment\<close>), and \<open>validate_output\<close> is true of that dict. In general
  \<open>validate_output\<close> is true exactly of the dicts that have the primary field: it is
  false of every value that is not a dict and of every dict without the field.
\<close>

theorem execute_result_validates:
  "(ResearchAgent_execute e (PStr x) w = (Inr d, w') \<longrightarrow>
      ''findings'' \<in> fst ` set d \<and> ResearchAgent_validate_output (PDict d)) \<and>
   (AnalysisAgent_execute e (PStr x) w = (Inr d, w') \<longrightarrow>
      ''insights'' \<in> fst ` set d \<and> AnalysisAgent_validate_output (PDict d)) \<and>
   (WriterAgent_execute e (PStr x) w = (Inr d, w') \<longrightarrow>
      ''content'' \<in> fst ` set d \<and> WriterAgent_validate_output (PDict d)) \<and>
   (ReviewAgent_execute e (PStr x) w = (Inr d, w') \<longrightarrow>
      ''quality_assessment'' \<in> fst ` set d \<and> ReviewAgent_validate_output (PDict d)) \<and>
   (ResearchAgent_validate_output v \<longleftrightarrow> (\<exists>d. v = PDict d \<and> ''findings'' \<in> fst ` set d)) \<and>
   (AnalysisAgent_validate_output v \<longleftrightarrow> (\<exists>d. v = PDict d \<and> ''insights'' \<in> fst ` set d)) \<and>
   (WriterAgent_validate_output v \<longleftrightarrow> (\<exists>d. v = PDict d \<and> ''content'' \<in> fst ` set d)) \<and>
   (ReviewAgent_validate_output v \<longleftrightarrow>
      (\<exists>d. v = PDict d \<and> ''quality_assessment'' \<in> fst ` set d))"
proof (intro conjI impI)
  assume "ResearchAgent_execute e (PStr x) w = (Inr d, w')"
  then have "d = [(''topic'', PStr x), (''findings'', PStr (projr (llm e (length (prompts w)) (research_prompt x)))),
      (''research_type'', PStr ''comprehensive'')]"
    by (auto simp: ResearchAgent_execute_str split: sum.splits)
  then show "''findings'' \<in> fst ` set d" and "ResearchAgent_validate_output (PDict d)"
    by (simp_all add: ResearchAgent_validate_output_def contains_def)
next
  assume "AnalysisAgent_execute e (PStr x) w = (Inr d, w')"
  then have "d = [(''input_summary'', PStr (take 200 x)),
      (''insights'', PStr (projr (llm e (length (prompts w)) (analysis_prompt x)))),
      (''confidence_score'', PFloat 0.85)]"
    by (auto simp: AnalysisAgent_execute_str split: sum.splits)
  then show "''insights'' \<in> fst ` set d" and "AnalysisAgent_validate_output (PDict d)"
    by (simp_all add: AnalysisAgent_validate_output_def contains_def)
next
  assume "WriterAgent_execute e (PStr x) w = (Inr d, w')"
  then have "\<exists>c. d = [(''report_type'', PStr ''professional''), (''content'', PStr c),
      (''word_count'', PInt (int (length (str_split c)))), (''status'', PStr ''completed'')]"
    by (auto simp: WriterAgent_execute_str split: sum.splits)
  then show "''content'' \<in> fst ` set d" and "WriterAgent_validate_output (PDict d)"
    by (auto simp: WriterAgent_validate_output_def contains_def)
next
  assume "ReviewAgent_execute e (PStr x) w = (Inr d, w')"
  then have "\<exists>c. d = [(''status'', PStr ''reviewed''), (''quality_assessment'', PStr c),
      (''quality_score'', PFloat 0.92), (''approved'', PBool True)]"
    by (auto simp: ReviewAgent_execute_str split: sum.splits)
  then show "''quality_assessment'' \<in> fst ` set d" and "ReviewAgent_validate_output (PDict d)"
    by (auto simp: ReviewAgent_validate_output_def contains_def)
next
  show "ResearchAgent_validate_output v \<longleftrightarrow> (\<exists>d. v = PDict d \<and> ''findings'' \<in> fst ` set d)"
    by (cases v) (simp_all add: ResearchAgent_validate_output_def contains_iff)
  show "AnalysisAgent_validate_output v \<longleftrightarrow> (\<exists>d. v = PDict d \<and> ''insights'' \<in> fst ` set d)"
    by (cases v) (simp_all add: AnalysisAgent_validate_output_def contains_iff)
  show "WriterAgent_validate_output v \<longleftrightarrow> (\<exists>d. v = PDict d \<and> ''content'' \<in> fst ` set d)"
    by (cases v) (simp_all add: WriterAgent_validate_output_def contains_iff)
  show "ReviewAgent_validate_output v \<longleftrightarrow>
      (\<exists>d. v = PDict d \<and> ''quality_assessment'' \<in> fst ` set d)"
    by (cases v) (simp_all add: ReviewAgent_validate_output_def contains_iff)
qed

theorem execute_result_validates_witness:
  "(\<exists>d w'. ResearchAgent_execute (scripted_env [''R1'']) (PStr ''X'') new_world = (Inr d, w') \<and>
      ''findings'' \<in> fst ` set d \<and> ResearchAgent_validate_output (PDict d)) \<and>
   (\<exists>d w'. AnalysisAgent_execute (scripted_env [''R1'']) (PStr ''X'') new_world = (Inr d, w') \<and>
      ''insights'' \<in> fst ` set d \<and> AnalysisAgent_validate_output (PDict d)) \<and>
   (\<exists>d w'. WriterAgent_execute (scripted_env [''R1'']) (PStr ''X'') new_world = (Inr d, w') \<and>
      ''content'' \<in> fst ` set d \<and> WriterAgent_validate_output (PDict d)) \<and>
   (\<exists>d w'. ReviewAgent_execute (scripted_env [''R1'']) (PStr ''X'') new_world = (Inr d, w') \<and>
      ''quality_assessment'' \<in> fst ` set d \<and> ReviewAgent_validate_output (PDict d)) \<and>
   \<not> ResearchAgent_validate_output (PStr ''findings'') \<and>
   \<not> ResearchAgent_validate_output (PDict [(''topic'', PStr ''X'')])"
proof -
  let ?e = "scripted_env [''R1'']"
  have ans: "llm ?e (length (prompts new_world)) p = Inr ''R1''" for p
    by (simp add: scripted_env_def scripted_llm_def new_world_def)
  note ev = execute_result_validates
  have "\<exists>d w'. ResearchAgent_execute ?e (PStr ''X'') new_world = (Inr d, w')"
    by (simp add: ResearchAgent_execute_str ans)
  then obtain d1 w1 where 1: "ResearchAgent_execute ?e (PStr ''X'') new_world = (Inr d1, w1)"
    by blast
  have "\<exists>d w'. AnalysisAgent_execute ?e (PStr ''X'') new_world = (Inr d, w')"
    by (simp add: AnalysisAgent_execute_str ans)
  then obtain d2 w2 where 2: "AnalysisAgent_execute ?e (PStr ''X'') new_world = (Inr d2, w2)"
    by blast
  have "\<exists>d w'. WriterAgent_execute ?e (PStr ''X'') new_world = (Inr d, w')"
    by (simp add: WriterAgent_execute_str ans)
  then obtain d3 w3 where 3: "WriterAgent_execute ?e (PStr ''X'') new_world = (Inr d3, w3)"
    by blast
  have "\<exists>d w'. ReviewAgent_execute ?e (PStr ''X'') new_world = (Inr d, w')"
    by (simp add: ReviewAgent_execute_str ans)
  then obtain d4 w4 where 4: "ReviewAgent_execute ?e (PStr ''X'') new_world = (Inr d4, w4)"
    by blast
  from ev [of ?e "''X''" new_world d1 w1, THEN conjunct1, rule_format, OF 1] 1
  have a: "\<exists>d w'. ResearchAgent_execute ?e (PStr ''X'') new_world = (Inr d, w') \<and>
      ''findings'' \<in> fst ` set d \<and> ResearchAgent_validate_output (PDict d)"
    by blast
  from ev [of ?e "''X''" new_world d2 w2, THEN conjunct2, THEN conjunct1, rule_format, OF 2] 2
  have b: "\<exists>d w'. AnalysisAgent_execute ?e (PStr ''X'') new_world = (Inr d, w') \<and>
      ''insights'' \<in> fst ` set d \<and> AnalysisAgent_validate_output (PDict d)"
    by blast
  from ev [of ?e "''X''" new_world d3 w3, THEN conjunct2, THEN conjunct2, THEN conjunct1,
      rule_format, OF 3] 3
  have c: "\<exists>d w'. WriterAgent_execute ?e (PStr ''X'') new_world = (Inr d, w') \<and>
      ''content'' \<in> fst ` set d \<and> WriterAgent_validate_output (PDict d)"
    by blast
  from ev [of ?e "''X''" new_world d4 w4, THEN conjunct2, THEN conjunct2, THEN conjunct2,
      THEN conjunct1, rule_format, OF 4] 4
  have d: "\<exists>d w'. ReviewAgent_execute ?e (PStr ''X'') new_world = (Inr d, w') \<and>
      ''quality_assessment'' \<in> fst ` set d \<and> ReviewAgent_validate_output (PDict d)"
    by blast
  have f: "\<not> ResearchAgent_validate_output (PStr ''findings'')"
    using ev [of ?e "''X''" new_world d1 w1 "PStr ''findings''"] by simp
  have g: "\<not> ResearchAgent_validate_output (PDict [(''topic'', PStr ''X'')])"
    using ev [of ?e "''X''" new_world d1 w1 "PDict [(''topic'', PStr ''X'')]"] by simp
  from a b c d f g show ?thesis by (intro conjI)
qed

text \<open>
  C7. Whatever text the completion client returns: the Writer's result carries that text
  as \<open>content\<close> and a \<open>word_count\<close> equal to the number of whitespace-separated
  tokens of it; the Analysis result's \<open>input_summary\<close> is the first 200 characters of
  the stage's input; and the Review result's \<open>quality_score\<close> and \<open>approved\<close> are
  the literals 0.92 and true, whatever was reviewed. The whitespace that separates tokens
  is that of \<open>str.split()\<close>: exactly the characters with the codes 9 to 13, 28 to 32,
  133 (next line) and 160 (no-break space).
\<close>

theorem derived_fields:
  "(WriterAgent_execute e (PStr x) w = (Inr d, w') \<longrightarrow>
      (\<exists>c. llm e (length (prompts w)) (writing_prompt x) = Inr c \<and>
         map_of d ''content'' = Some (PStr c) \<and>
         map_of d ''word_count'' = Some (PInt (int (whitespace_separated_tokens c))))) \<and>
   (AnalysisAgent_execute e (PStr x) w = (Inr d, w') \<longrightarrow>
      map_of d ''input_summary'' = Some (PStr (take 200 x))) \<and>
   (ReviewAgent_execute e (PStr x) w = (Inr d, w') \<longrightarrow>
      map_of d ''quality_score'' = Some (PFloat 0.92) \<and>
      map_of d ''approved'' = Some (PBool True)) \<and>
   (is_space ch \<longleftrightarrow>
      (of_char ch :: nat) \<in> {9, 10, 11, 12, 13, 28, 29, 30, 31, 32, 133, 160})"
proof -
  have "(WriterAgent_execute e (PStr x) w = (Inr d, w') \<longrightarrow>
      (\<exists>c. llm e (length (prompts w)) (writing_prompt x) = Inr c \<and>
         map_of d ''content'' = Some (PStr c) \<and>
         map_of d ''word_count'' = Some (PInt (int (whitespace_separated_tokens c))))) \<and>
   (AnalysisAgent_execute e (PStr x) w = (Inr d, w') \<longrightarrow>
      map_of d ''input_summary'' = Some (PStr (take 200 x))) \<and>
   (ReviewAgent_execute e (PStr x) w = (Inr d, w') \<longrightarrow>
      map_of d ''quality_score'' = Some (PFloat 0.92) \<and>
      map_of d ''approved'' = Some (PBool True))"
    by (auto simp: WriterAgent_execute_str AnalysisAgent_execute_str ReviewAgent_execute_str
        str_split_count split: sum.splits)
  with is_space_code [of ch] show ?thesis by blast
qed

theorem derived_fields_witness:
  "(\<exists>d w'. WriterAgent_execute (scripted_env [''two  words '']) (PStr ''X'') new_world = (Inr d, w') \<and>
      map_of d ''content'' = Some (PStr ''two  words '') \<and>
      map_of d ''word_count'' = Some (PInt 2)) \<and>
   (\<exists>d w'. WriterAgent_execute
        (scripted_env [[CHR ''a'', CHR 0xA0, CHR ''b'', CHR 0x85, CHR ''c'', CHR 0x1B, CHR ''d'']])
        (PStr ''X'') new_world = (Inr d, w') \<and>
      map_of d ''word_count'' = Some (PInt 3)) \<and>
   is_space (CHR 0xA0) \<and> is_space (CHR 0x85) \<and> is_space (CHR 0x09) \<and> \<not> is_space (CHR 0x1B) \<and>
   (\<exists>d w'. AnalysisAgent_execute (scripted_env [''R1'']) (PStr (replicate 201 CHR ''a'')) new_world =
        (Inr d, w') \<and>
      map_of d ''input_summary'' = Some (PStr (replicate 200 CHR ''a''))) \<and>
   (\<exists>d w'. ReviewAgent_execute (scripted_env [''R1'']) (PStr ''X'') new_world = (Inr d, w') \<and>
      map_of d ''quality_score'' = Some (PFloat 0.92) \<and>
      map_of d ''approved'' = Some (PBool True))"
proof -
  have ans: "llm (scripted_env [a]) (length (prompts new_world)) p = Inr a" for a p
    by (simp add: scripted_env_def scripted_llm_def new_world_def)
  note df = derived_fields
  have "\<exists>d w'. WriterAgent_execute (scripted_env [''two  words '']) (PStr ''X'') new_world = (Inr d, w')"
    by (simp add: WriterAgent_execute_str ans)
  then obtain d1 w1 where
    1: "WriterAgent_execute (scripted_env [''two  words '']) (PStr ''X'') new_world = (Inr d1, w1)"
    by blast
  have count: "whitespace_separated_tokens ''two  words '' = 2"
    by (simp add: whitespace_separated_tokens_def is_space_def)
  from df [of "scripted_env [''two  words '']" "''X''" new_world d1 w1, THEN conjunct1, rule_format, OF 1]
  have "map_of d1 ''content'' = Some (PStr ''two  words '') \<and> map_of d1 ''word_count'' = Some (PInt 2)"
    by (auto simp: ans count)
  with 1 have a: "\<exists>d w'. WriterAgent_execute (scripted_env [''two  words '']) (PStr ''X'') new_world = (Inr d, w') \<and>
      map_of d ''content'' = Some (PStr ''two  words '') \<and>
      map_of d ''word_count'' = Some (PInt 2)"
    by blast
  have "\<exists>d w'. AnalysisAgent_execute (scripted_env [''R1'']) (PStr (replicate 201 CHR ''a'')) new_world = (Inr d, w')"
    by (simp add: AnalysisAgent_execute_str ans)
  then obtain d2 w2 where
    2: "AnalysisAgent_execute (scripted_env [''R1'']) (PStr (replicate 201 CHR ''a'')) new_world = (Inr d2, w2)"
    by blast
  have tk: "take 200 (replicate 201 CHR ''a'') = replicate 200 CHR ''a''"
    by simp
  from df [of "scripted_env [''R1'']" "replicate 201 CHR ''a''" new_world d2 w2,
      THEN conjunct2, THEN conjunct1, rule_format, OF 2]
  have "map_of d2 ''input_summary'' = Some (PStr (replicate 200 CHR ''a''))"
    by (simp only: tk)
  with 2 have b: "\<exists>d w'. AnalysisAgent_execute (scripted_env [''R1'']) (PStr (replicate 201 CHR ''a'')) new_world =
        (Inr d, w') \<and>
      map_of d ''input_summary'' = Some (PStr (replicate 200 CHR ''a''))"
    by blast
  have "\<exists>d w'. ReviewAgent_execute (scripted_env [''R1'']) (PStr ''X'') new_world = (Inr d, w')"
    by (simp add: ReviewAgent_execute_str ans)
  then obtain d3 w3 where
    3: "ReviewAgent_execute (scripted_env [''R1'']) (PStr ''X'') new_world = (Inr d3, w3)"
    by blast
  from df [of "scripted_env [''R1'']" "''X''" new_world d3 w3,
      THEN conjunct2, THEN conjunct2, THEN conjunct1, rule_format, OF 3] 3
  have c: "\<exists>d w'. ReviewAgent_execute (scripted_env [''R1'']) (PStr ''X'') new_world = (Inr d, w') \<and>
      map_of d ''quality_score'' = Some (PFloat 0.92) \<and>
      map_of d ''approved'' = Some (PBool True)"
    by blast
  let ?t = "[CHR ''a'', CHR 0xA0, CHR ''b'', CHR 0x85, CHR ''c'', CHR 0x1B, CHR ''d'']"
  have "\<exists>d w'. WriterAgent_execute (scripted_env [?t]) (PStr ''X'') new_world = (Inr d, w')"
    by (simp add: WriterAgent_execute_str ans)
  then obtain d4 w4 where
    4: "WriterAgent_execute (scripted_env [?t]) (PStr ''X'') new_world = (Inr d4, w4)"
    by blast
  have count4: "whitespace_separated_tokens ?t = 3"
    by (simp add: whitespace_separated_tokens_def is_space_def)
  from df [of "scripted_env [?t]" "''X''" new_world d4 w4, THEN conjunct1, rule_format, OF 4]
  have "map_of d4 ''word_count'' = Some (PInt 3)"
    by (auto simp: ans count4)
  with 4 have a': "\<exists>d w'. WriterAgent_execute (scripted_env [?t]) (PStr ''X'') new_world = (Inr d, w') \<and>
      map_of d ''word_count'' = Some (PInt 3)"
    by blast
  note sp = df [THEN conjunct2, THEN conjunct2, THEN conjunct2]
  have s1: "is_space (CHR 0xA0)" by (simp add: sp)
  have s2: "is_space (CHR 0x85)" by (simp add: sp)
  have s3: "is_space (CHR 0x09)" by (simp add: sp)
  have s4: "\<not> is_space (CHR 0x1B)" by (simp add: sp)
  from a a' s1 s2 s3 s4 b c show ?thesis by (intro conjI)
qed

text \<open>
  C8, as the code has it. The result of a successful \<open>execute_workflow\<close> on the four
  agents has a performance record of exactly four per-stage values and one total, each
  the difference of two clock readings times 1000. The total comes from its own two
  readings, the first and the last of the call, and is not the sum of the four. The code
  reads the wall clock (\<open>time.time()\<close>), which can be set back, so the five values
  are non-negative when the readings taken during the call do not decrease.
\<close>

theorem performance_from_clock_readings:
  assumes "execute_workflow e (AgentOrchestrator_agents e) x s = (Inr r, s')"
  shows "performance r =
       [(''research_time_ms'', (now e (ticks (outside s) + 5) - now e (ticks (outside s) + 2)) * 1000),
        (''analysis_time_ms'', (now e (ticks (outside s) + 9) - now e (ticks (outside s) + 6)) * 1000),
        (''writing_time_ms'', (now e (ticks (outside s) + 13) - now e (ticks (outside s) + 10)) * 1000),
        (''review_time_ms'', (now e (ticks (outside s) + 17) - now e (ticks (outside s) + 14)) * 1000),
        (''total_time_ms'', (now e (ticks (outside s) + 18) - now e (ticks (outside s))) * 1000)] \<and>
     ((\<forall>m n. ticks (outside s) \<le> m \<and> m \<le> n \<and> n \<le> ticks (outside s) + 18 \<longrightarrow> now e m \<le> now e n) \<longrightarrow>
        list_all (\<lambda>kv. 0 \<le> snd kv) (performance r))"
proof -
  from run_inversion [OF assms] obtain f i c q where
    "llm e (length (prompts (outside s))) (research_prompt x) = Inr f"
    "llm e (Suc (length (prompts (outside s)))) (analysis_prompt f) = Inr i"
    "llm e (Suc (Suc (length (prompts (outside s))))) (writing_prompt i) = Inr c"
    "llm e (Suc (Suc (Suc (length (prompts (outside s)))))) (review_prompt c) = Inr q"
    by blast
  from run_ok [OF this] assms have p: "performance r =
       [(''research_time_ms'', (now e (ticks (outside s) + 5) - now e (ticks (outside s) + 2)) * 1000),
        (''analysis_time_ms'', (now e (ticks (outside s) + 9) - now e (ticks (outside s) + 6)) * 1000),
        (''writing_time_ms'', (now e (ticks (outside s) + 13) - now e (ticks (outside s) + 10)) * 1000),
        (''review_time_ms'', (now e (ticks (outside s) + 17) - now e (ticks (outside s) + 14)) * 1000),
        (''total_time_ms'', (now e (ticks (outside s) + 18) - now e (ticks (outside s))) * 1000)]"
    by auto
  have "list_all (\<lambda>kv. 0 \<le> snd kv) (performance r)"
    if mono: "\<forall>m n. ticks (outside s) \<le> m \<and> m \<le> n \<and> n \<le> ticks (outside s) + 18 \<longrightarrow> now e m \<le> now e n"
  proof -
    have "now e (ticks (outside s) + 2) \<le> now e (ticks (outside s) + 5)"
      and "now e (ticks (outside s) + 6) \<le> now e (ticks (outside s) + 9)"
      and "now e (ticks (outside s) + 10) \<le> now e (ticks (outside s) + 13)"
      and "now e (ticks (outside s) + 14) \<le> now e (ticks (outside s) + 17)"
      and "now e (ticks (outside s)) \<le> now e (ticks (outside s) + 18)"
      using mono by simp_all
    then show ?thesis by (simp add: p)
  qed
  with p show ?thesis by blast
qed

theorem performance_from_clock_readings_witness:
  "\<exists>r s'. execute_workflow (scripted_env [''R1'', ''R2'', ''R3'', ''R4''])
       (AgentOrchestrator_agents (scripted_env [''R1'', ''R2'', ''R3'', ''R4''])) ''X''
       (AgentOrchestrator_init new_world) = (Inr r, s') \<and>
     performance r =
       [(''research_time_ms'', 3000), (''analysis_time_ms'', 3000), (''writing_time_ms'', 3000),
        (''review_time_ms'', 3000), (''total_time_ms'', 18000)] \<and>
     list_all (\<lambda>kv. 0 \<le> snd kv) (performance r) \<and>
     sum_list (map snd (take 4 (performance r))) = 12000"
proof -
  let ?e = "scripted_env [''R1'', ''R2'', ''R3'', ''R4'']"
  let ?s = "AgentOrchestrator_init new_world"
  from scripted_run obtain r s' where
    run: "execute_workflow ?e (AgentOrchestrator_agents ?e) ''X'' ?s = (Inr r, s')"
    by blast
  have t0: "ticks (outside ?s) = 0"
    by (simp add: AgentOrchestrator_init_def new_world_def)
  have mono: "\<forall>m n. ticks (outside ?s) \<le> m \<and> m \<le> n \<and> n \<le> ticks (outside ?s) + 18 \<longrightarrow> now ?e m \<le> now ?e n"
    by (simp add: scripted_env_def steady_clock_def)
  from performance_from_clock_readings [OF run] mono
  have "performance r =
       [(''research_time_ms'', 3000), (''analysis_time_ms'', 3000), (''writing_time_ms'', 3000),
        (''review_time_ms'', 3000), (''total_time_ms'', 18000)]"
    and "list_all (\<lambda>kv. 0 \<le> snd kv) (performance r)"
    by (simp_all add: t0 scripted_env_def steady_clock_def)
  with run show ?thesis by (intro exI [of _ r] exI [of _ s']) simp
qed

text \<open>
  C8 as stated fails: with a clock that is set back by one second after its fourth
  reading, the run returns a result whose Research timing and total timing are
  \<open>-1000\<close>.
\<close>

theorem negative_timing_counterexample:
  "map performance
     (workflow_history
       (snd (execute_workflow set_back_env (AgentOrchestrator_agents set_back_env) ''X''
          (AgentOrchestrator_init new_world)))) =
     [[(''research_time_ms'', - 1000), (''analysis_time_ms'', 0), (''writing_time_ms'', 0),
       (''review_time_ms'', 0), (''total_time_ms'', - 1000)]]"
proof -
  let ?e = "set_back_env"
  let ?s = "AgentOrchestrator_init new_world"
  have 1: "llm ?e (length (prompts (outside ?s))) (research_prompt ''X'') = Inr ''R1''"
    by (simp add: set_back_env_def scripted_llm_def AgentOrchestrator_init_def new_world_def)
  have 2: "llm ?e (Suc (length (prompts (outside ?s)))) (analysis_prompt ''R1'') = Inr ''R2''"
    by (simp add: set_back_env_def scripted_llm_def AgentOrchestrator_init_def new_world_def)
  have 3: "llm ?e (Suc (Suc (length (prompts (outside ?s))))) (writing_prompt ''R2'') = Inr ''R3''"
    by (simp add: set_back_env_def scripted_llm_def AgentOrchestrator_init_def new_world_def)
  have 4: "llm ?e (Suc (Suc (Suc (length (prompts (outside ?s)))))) (review_prompt ''R3'') = Inr ''R4''"
    by (simp add: set_back_env_def scripted_llm_def AgentOrchestrator_init_def new_world_def)
  from run_ok [OF 1 2 3 4] obtain r s' where
    run: "execute_workflow ?e (AgentOrchestrator_agents ?e) ''X'' ?s = (Inr r, s')"
    and p: "performance r =
       [(''research_time_ms'', (now ?e (ticks (outside ?s) + 5) - now ?e (ticks (outside ?s) + 2)) * 1000),
        (''analysis_time_ms'', (now ?e (ticks (outside ?s) + 9) - now ?e (ticks (outside ?s) + 6)) * 1000),
        (''writing_time_ms'', (now ?e (ticks (outside ?s) + 13) - now ?e (ticks (outside ?s) + 10)) * 1000),
        (''review_time_ms'', (now ?e (ticks (outside ?s) + 17) - now ?e (ticks (outside ?s) + 14)) * 1000),
        (''total_time_ms'', (now ?e (ticks (outside ?s) + 18) - now ?e (ticks (outside ?s))) * 1000)]"
    and h: "workflow_history s' = workflow_history ?s @ [r]"
    by blast
  have "performance r =
     [(''research_time_ms'', - 1000), (''analysis_time_ms'', 0), (''writing_time_ms'', 0),
       (''review_time_ms'', 0), (''total_time_ms'', - 1000)]"
    by (simp add: p set_back_env_def set_back_clock_def AgentOrchestrator_init_def new_world_def)
  with run h show ?thesis
    by (simp add: AgentOrchestrator_init_def)
qed

text \<open>
  C9. Run History is append-only and keeps the insertion order: a call of
  \<open>execute_workflow\<close> that returns a result leaves the history as it was with that one
  result added at the end, a call that raises leaves the history as it was, and
  \<open>get_workflow_statistics\<close> and \<open>get_agent_performance\<close> return the state unchanged.
\<close>

theorem workflow_history_append_only:
  "workflow_history (snd (execute_workflow e ag x s)) =
     (case fst (execute_workflow e ag x s) of
        Inr r \<Rightarrow> workflow_history s @ [r]
      | Inl err \<Rightarrow> workflow_history s) \<and>
   snd (get_workflow_statistics s) = s \<and>
   snd (get_agent_performance agent_name s) = s"
proof (intro conjI)
  show "workflow_history (snd (execute_workflow e ag x s)) =
     (case fst (execute_workflow e ag x s) of
        Inr r \<Rightarrow> workflow_history s @ [r]
      | Inl err \<Rightarrow> workflow_history s)"
    by (rule execute_workflow_history)
  show "snd (get_workflow_statistics s) = s"
    by (simp add: get_workflow_statistics_def Let_def split: sum.split)
  show "snd (get_agent_performance agent_name s) = s"
    by (simp add: get_agent_performance_def Let_def split: list.split)
qed

text \<open>
  C10. The runner reads each primary field with \<open>.get(key, "")\<close>. Take in place of the
  agents four decorated stages that return any given dicts \<open>d1\<close> to \<open>d4\<close>: the run
  returns a result, and each later stage is started with the primary field of the dict
  before it when the dict has that field and with the empty string when it has not. For
  arbitrary agents, an error that leaves \<open>execute_workflow\<close> is an error that one of
  the four agents raised: the lookup between the stages raises nothing of its own.
\<close>

theorem missing_primary_field_defaults:
  "(\<exists>r s'.
      execute_workflow e
        \<lparr>research_agent = track_agent_performance e ''ResearchAgent'' ''execute'' (\<lambda>arg w. (Inr d1, w)),
         analysis_agent = track_agent_performance e ''AnalysisAgent'' ''execute'' (\<lambda>arg w. (Inr d2, w)),
         writer_agent = track_agent_performance e ''WriterAgent'' ''execute'' (\<lambda>arg w. (Inr d3, w)),
         review_agent = track_agent_performance e ''ReviewAgent'' ''execute'' (\<lambda>arg w. (Inr d4, w))\<rparr>
        x s = (Inr r, s') \<and>
      stage_calls (telemetry (outside s')) =
        stage_calls (telemetry (outside s)) @
          [(''ResearchAgent'', PStr x),
           (''AnalysisAgent'', case map_of d1 ''findings'' of None \<Rightarrow> PStr [] | Some v \<Rightarrow> v),
           (''WriterAgent'', case map_of d2 ''insights'' of None \<Rightarrow> PStr [] | Some v \<Rightarrow> v),
           (''ReviewAgent'', case map_of d3 ''content'' of None \<Rightarrow> PStr [] | Some v \<Rightarrow> v)]) \<and>
   (execute_workflow e ag x s = (Inl err, t) \<longrightarrow>
      (\<exists>arg w w'.
         research_agent ag arg w = (Inl err, w') \<or> analysis_agent ag arg w = (Inl err, w') \<or>
         writer_agent ag arg w = (Inl err, w') \<or> review_agent ag arg w = (Inl err, w')))"
proof (intro conjI impI)
  show "\<exists>r s'.
      execute_workflow e
        \<lparr>research_agent = track_agent_performance e ''ResearchAgent'' ''execute'' (\<lambda>arg w. (Inr d1, w)),
         analysis_agent = track_agent_performance e ''AnalysisAgent'' ''execute'' (\<lambda>arg w. (Inr d2, w)),
         writer_agent = track_agent_performance e ''WriterAgent'' ''execute'' (\<lambda>arg w. (Inr d3, w)),
         review_agent = track_agent_performance e ''ReviewAgent'' ''execute'' (\<lambda>arg w. (Inr d4, w))\<rparr>
        x s = (Inr r, s') \<and>
      stage_calls (telemetry (outside s')) =
        stage_calls (telemetry (outside s)) @
          [(''ResearchAgent'', PStr x),
           (''AnalysisAgent'', case map_of d1 ''findings'' of None \<Rightarrow> PStr [] | Some v \<Rightarrow> v),
           (''WriterAgent'', case map_of d2 ''insights'' of None \<Rightarrow> PStr [] | Some v \<Rightarrow> v),
           (''ReviewAgent'', case map_of d3 ''content'' of None \<Rightarrow> PStr [] | Some v \<Rightarrow> v)]"
    by (simp add: execute_workflow_def track_agent_performance_def log_agent_start_def
        log_agent_end_def time_time_def emit_def Let_def dict_get_def)
next
  assume "execute_workflow e ag x s = (Inl err, t)"
  then show "\<exists>arg w w'.
         research_agent ag arg w = (Inl err, w') \<or> analysis_agent ag arg w = (Inl err, w') \<or>
         writer_agent ag arg w = (Inl err, w') \<or> review_agent ag arg w = (Inl err, w')"
    by (simp add: execute_workflow_def time_time_def Let_def split: prod.splits sum.splits) blast+
qed

theorem missing_primary_field_witness:
  "(\<exists>r s'.
      execute_workflow (scripted_env [])
        \<lparr>research_agent = track_agent_performance (scripted_env []) ''ResearchAgent'' ''execute''
           (\<lambda>arg w. (Inr [(''topic'', PStr ''X'')], w)),
         analysis_agent = track_agent_performance (scripted_env []) ''AnalysisAgent'' ''execute''
           (\<lambda>arg w. (Inr [], w)),
         writer_agent = track_agent_performance (scripted_env []) ''WriterAgent'' ''execute''
           (\<lambda>arg w. (Inr [(''content'', PStr ''C'')], w)),
         review_agent = track_agent_performance (scripted_env []) ''ReviewAgent'' ''execute''
           (\<lambda>arg w. (Inr [], w))\<rparr>
        ''X'' (AgentOrchestrator_init new_world) = (Inr r, s') \<and>
      stage_calls (telemetry (outside s')) =
        [(''ResearchAgent'', PStr ''X''), (''AnalysisAgent'', PStr []), (''WriterAgent'', PStr []),
         (''ReviewAgent'', PStr ''C'')]) \<and>
   (\<exists>arg w w'.
      ResearchAgent_execute (scripted_env []) arg w = (Inl (CompletionError ''unavailable''), w') \<or>
      AnalysisAgent_execute (scripted_env []) arg w = (Inl (CompletionError ''unavailable''), w') \<or>
      WriterAgent_execute (scripted_env []) arg w = (Inl (CompletionError ''unavailable''), w') \<or>
      ReviewAgent_execute (scripted_env []) arg w = (Inl (CompletionError ''unavailable''), w'))"
proof -
  let ?e = "scripted_env []"
  let ?s = "AgentOrchestrator_init new_world"
  note mp = missing_primary_field_defaults
  have start: "stage_calls (telemetry (outside ?s)) = []"
    by (simp add: AgentOrchestrator_init_def new_world_def)
  from mp [of ?e "[(''topic'', PStr ''X'')]" "[]" "[(''content'', PStr ''C'')]" "[]" "''X''" ?s,
      THEN conjunct1]
  have a: "\<exists>r s'.
      execute_workflow ?e
        \<lparr>research_agent = track_agent_performance ?e ''ResearchAgent'' ''execute''
           (\<lambda>arg w. (Inr [(''topic'', PStr ''X'')], w)),
         analysis_agent = track_agent_performance ?e ''AnalysisAgent'' ''execute''
           (\<lambda>arg w. (Inr [], w)),
         writer_agent = track_agent_performance ?e ''WriterAgent'' ''execute''
           (\<lambda>arg w. (Inr [(''content'', PStr ''C'')], w)),
         review_agent = track_agent_performance ?e ''ReviewAgent'' ''execute''
           (\<lambda>arg w. (Inr [], w))\<rparr>
        ''X'' ?s = (Inr r, s') \<and>
      stage_calls (telemetry (outside s')) =
        [(''ResearchAgent'', PStr ''X''), (''AnalysisAgent'', PStr []), (''WriterAgent'', PStr []),
         (''ReviewAgent'', PStr ''C'')]"
    by (simp add: start)
  have "llm ?e (length (prompts (outside ?s))) (research_prompt ''X'') = Inl (CompletionError ''unavailable'')"
    by (simp add: scripted_env_def scripted_llm_def)
  from run_fail_research [OF this] obtain t where
    "execute_workflow ?e (AgentOrchestrator_agents ?e) ''X'' ?s = (Inl (CompletionError ''unavailable''), t)"
    by blast
  from mp [of _ _ _ _ _ _ _ "AgentOrchestrator_agents ?e", THEN conjunct2, rule_format, OF this]
  have b: "\<exists>arg w w'.
      ResearchAgent_execute ?e arg w = (Inl (CompletionError ''unavailable''), w') \<or>
      AnalysisAgent_execute ?e arg w = (Inl (CompletionError ''unavailable''), w') \<or>
      WriterAgent_execute ?e arg w = (Inl (CompletionError ''unavailable''), w') \<or>
      ReviewAgent_execute ?e arg w = (Inl (CompletionError ''unavailable''), w')"
    by (simp add: AgentOrchestrator_agents_def)
  from a b show ?thesis by (intro conjI)
qed

end
